theory Spec2Isabelle
  imports Complex_Main
begin

section \<open>Hex colour strings\<close>

text \<open>
  Colours travel through both analyzers as strings of the form \<open>#rrggbb\<close>.
  \<open>rgbToHex\<close> prints three channel values with \<open>Number.toString(16)\<close> and
  \<open>padStart(2, '0')\<close>; \<open>hexToRgb\<close> matches the string against
  \<open>/^#?([a-f\d]{2})([a-f\d]{2})([a-f\d]{2})$/i\<close> and reads the three groups with
  \<open>parseInt(_, 16)\<close>, returning \<open>[0, 0, 0]\<close> when the match fails.
\<close>

definition hexDigits :: string where
  "hexDigits = ''0123456789abcdef''"

text \<open>\<open>Number.prototype.toString(16)\<close> on a non-negative integer.\<close>

fun toString16 :: "nat \<Rightarrow> string" where
  "toString16 n =
     (if n < 16 then [hexDigits ! n]
      else toString16 (n div 16) @ [hexDigits ! (n mod 16)])"

declare toString16.simps [simp del]

definition padStart :: "nat \<Rightarrow> char \<Rightarrow> string \<Rightarrow> string" where
  "padStart n c s = replicate (n - length s) c @ s"

definition rgbToHex :: "nat \<Rightarrow> nat \<Rightarrow> nat \<Rightarrow> string" where
  "rgbToHex r g b =
     CHR ''#'' # concat (map (\<lambda>x. padStart 2 (CHR ''0'') (toString16 x)) [r, g, b])"

text \<open>The character class \<open>[a-f\d]\<close> under the \<open>i\<close> flag.\<close>

definition isHexDigit :: "char \<Rightarrow> bool" where
  "isHexDigit c = (c \<in> set ''0123456789abcdefABCDEF'')"

definition hexDigitValue :: "char \<Rightarrow> nat option" where
  "hexDigitValue =
     map_of (zip ''0123456789abcdef'' [0 ..< 16] @ zip ''ABCDEF'' [10 ..< 16])"

text \<open>
  \<open>parseInt(s, 16)\<close> reads the longest prefix of hex digits. On a group matched by
  \<open>[a-f\d]{2}\<close> both characters are digits, so the \<open>NaN\<close> of an empty prefix never
  arises there.
\<close>

fun parseInt16_from :: "nat \<Rightarrow> string \<Rightarrow> nat" where
  "parseInt16_from acc [] = acc"
| "parseInt16_from acc (c # cs) =
     (case hexDigitValue c of
        None \<Rightarrow> acc
      | Some d \<Rightarrow> parseInt16_from (acc * 16 + d) cs)"

definition parseInt16 :: "string \<Rightarrow> nat" where
  "parseInt16 s = parseInt16_from 0 s"

text \<open>
  The regular expression: an optional leading \<open>#\<close>, then exactly six hex digits up
  to the end of the input; the result is the three captured groups.
\<close>

definition hexExec :: "string \<Rightarrow> (string \<times> string \<times> string) option" where
  "hexExec s =
     (let body = (case s of [] \<Rightarrow> s | c # cs \<Rightarrow> if c = CHR ''#'' then cs else s)
      in if length body = 6 \<and> list_all isHexDigit body
         then Some (take 2 body, take 2 (drop 2 body), take 2 (drop 4 body))
         else None)"

definition hexToRgb :: "string \<Rightarrow> nat list" where
  "hexToRgb hex =
     (case hexExec hex of
        Some (g1, g2, g3) \<Rightarrow> [parseInt16 g1, parseInt16 g2, parseInt16 g3]
      | None \<Rightarrow> [0, 0, 0])"


section \<open>Lightness, luminance, contrast and distance (class AIDesignAnalyzer)\<close>

text \<open>
  JavaScript numbers are modelled as real numbers. \<open>hexToRgb\<close> always returns three
  channels, so the destructuring \<open>const [r, g, b] = ...\<close> reads positions 0, 1, 2.
  \<open>Math.pow(x, 2.4)\<close> is \<open>x powr 2.4\<close>; its base \<open>(c + 0.055) / 1.055\<close> is positive.
\<close>

definition getLightness :: "string \<Rightarrow> real" where
  "getLightness hex =
     (let rgb = map (\<lambda>c. real c / 255) (hexToRgb hex);
          r = rgb ! 0; g = rgb ! 1; b = rgb ! 2;
          mx = max (max r g) b;
          mn = min (min r g) b
      in (mx + mn) / 2 * 100)"

definition getLuminance :: "string \<Rightarrow> real" where
  "getLuminance hex =
     (let rgb = map (\<lambda>c0. let c = real c0 / 255
                          in if c \<le> 0.03928 then c / 12.92
                             else ((c + 0.055) / 1.055) powr 2.4) (hexToRgb hex);
          r = rgb ! 0; g = rgb ! 1; b = rgb ! 2
      in 0.2126 * r + 0.7152 * g + 0.0722 * b)"

definition calculateContrastRatio :: "string \<Rightarrow> string \<Rightarrow> real" where
  "calculateContrastRatio hex1 hex2 =
     (let lum1 = getLuminance hex1;
          lum2 = getLuminance hex2;
          brightest = max lum1 lum2;
          darkest = min lum1 lum2
      in (brightest + 0.05) / (darkest + 0.05))"

definition colorDistance :: "string \<Rightarrow> string \<Rightarrow> real" where
  "colorDistance hex1 hex2 =
     (let c1 = hexToRgb hex1; c2 = hexToRgb hex2;
          r1 = real (c1 ! 0); g1 = real (c1 ! 1); b1 = real (c1 ! 2);
          r2 = real (c2 ! 0); g2 = real (c2 ! 1); b2 = real (c2 ! 2)
      in sqrt ((r1 - r2)\<^sup>2 + (g1 - g2)\<^sup>2 + (b1 - b2)\<^sup>2))"

section \<open>Luminance and contrast (class AdvancedDesignAnalyzer)\<close>

text \<open>
  The second analyzer has its own copies, on channel values instead of a hex string.
  Its \<open>hexToRgb\<close> is the same function as above.
\<close>

definition getLuminance_adv :: "nat \<Rightarrow> nat \<Rightarrow> nat \<Rightarrow> real" where
  "getLuminance_adv r g b =
     (let l = map (\<lambda>c0. let c = real c0 / 255
                          in if c \<le> 0.03928 then c / 12.92
                             else ((c + 0.055) / 1.055) powr 2.4) [r, g, b];
          lr = l ! 0; lg = l ! 1; lb = l ! 2
      in 0.2126 * lr + 0.7152 * lg + 0.0722 * lb)"

definition getLuminanceFromHex :: "string \<Rightarrow> real" where
  "getLuminanceFromHex hex =
     (let rgb = hexToRgb hex in getLuminance_adv (rgb ! 0) (rgb ! 1) (rgb ! 2))"

definition calculateColorContrast :: "string \<Rightarrow> string \<Rightarrow> real" where
  "calculateColorContrast hex1 hex2 =
     (let lum1 = getLuminanceFromHex hex1;
          lum2 = getLuminanceFromHex hex2;
          brightest = max lum1 lum2;
          darkest = min lum1 lum2
      in (brightest + 0.05) / (darkest + 0.05))"

section \<open>The WCAG 2.x definition, as the specification words it\<close>

definition wcagLinear :: "real \<Rightarrow> real" where
  "wcagLinear c = (if c \<le> 0.03928 then c / 12.92 else ((c + 0.055) / 1.055) powr 2.4)"

definition wcagLuminance :: "nat \<Rightarrow> nat \<Rightarrow> nat \<Rightarrow> real" where
  "wcagLuminance r g b =
     0.2126 * wcagLinear (real r / 255) + 0.7152 * wcagLinear (real g / 255)
       + 0.0722 * wcagLinear (real b / 255)"

text \<open>The Euclidean distance of two RGB triples.\<close>

definition euclideanRgb :: "nat list \<Rightarrow> nat list \<Rightarrow> real" where
  "euclideanRgb p q = sqrt (\<Sum>i<3. (real (p ! i) - real (q ! i))\<^sup>2)"

text \<open>A string matches the six-hex-digit pattern, with or without the leading \<open>#\<close>.\<close>

definition matchesHexPattern :: "string \<Rightarrow> bool" where
  "matchesHexPattern s \<longleftrightarrow>
     (\<exists>body. (s = body \<or> s = CHR ''#'' # body) \<and> length body = 6 \<and>
        (\<forall>c \<in> set body. isHexDigit c))"

section \<open>Colour quantizer (class AIDesignAnalyzer)\<close>

definition webColors :: "string list" where
  "webColors =
     [''#FF0000'', ''#00FF00'', ''#0000FF'', ''#FFFF00'', ''#FF00FF'', ''#00FFFF'',
      ''#FF6B6B'', ''#4ECDC4'', ''#45B7D1'', ''#96CEB4'', ''#FFEAA7'', ''#DDA0DD'',
      ''#98D8C8'', ''#F7DC6F'', ''#BB8FCE'', ''#85C1E9'', ''#F8C471'', ''#82E0AA'',
      ''#E74C3C'', ''#3498DB'', ''#2ECC71'', ''#F39C12'', ''#9B59B6'', ''#1ABC9C'',
      ''#000000'', ''#FFFFFF'', ''#333333'', ''#666666'', ''#999999'', ''#CCCCCC'']"

text \<open>
  The \<open>for ... of\<close> loop of \<open>quantizeToWebColors\<close>, on the state
  \<open>(closestColor, minDistance)\<close>. \<open>minDistance\<close> starts as \<open>Infinity\<close>, written
  \<open>None\<close>: every distance is below it.
\<close>

fun quantizeLoop :: "string \<Rightarrow> string list \<Rightarrow> string \<times> real option \<Rightarrow> string \<times> real option" where
  "quantizeLoop hex [] st = st"
| "quantizeLoop hex (webColor # rest) (closestColor, minDistance) =
     (let distance = colorDistance hex webColor
      in if (case minDistance of None \<Rightarrow> True | Some m \<Rightarrow> distance < m)
         then quantizeLoop hex rest (webColor, Some distance)
         else quantizeLoop hex rest (closestColor, minDistance))"

definition quantizeToWebColors :: "string \<Rightarrow> string" where
  "quantizeToWebColors hex = fst (quantizeLoop hex webColors (webColors ! 0, None))"

text \<open>
  Index \<open>i\<close> is the first nearest entry of \<open>ws\<close> under the distance \<open>d\<close>: nothing in
  \<open>ws\<close> is nearer, and everything before \<open>i\<close> is strictly farther.
\<close>

definition firstNearest :: "(string \<Rightarrow> real) \<Rightarrow> string list \<Rightarrow> nat \<Rightarrow> bool" where
  "firstNearest d ws i \<longleftrightarrow>
     i < length ws \<and> (\<forall>j < length ws. d (ws ! i) \<le> d (ws ! j)) \<and> (\<forall>j < i. d (ws ! i) < d (ws ! j))"

section \<open>Dominant-role assignment (class AIDesignAnalyzer)\<close>

record dominantColors =
  background :: string
  textColor :: string
  primary :: string
  secondary :: string
  accent :: string

text \<open>
  The field \<open>text\<close> of the source's object is called \<open>textColor\<close> here, after the
  local variable that fills it.
\<close>

definition getDefaultColors :: dominantColors where
  "getDefaultColors =
     \<lparr>background = ''#FFFFFF'', textColor = ''#333333'', primary = ''#007BFF'',
      secondary = ''#6C757D'', accent = ''#FF6B6B''\<rparr>"

text \<open>
  \<open>colorGroups\<close> is a JavaScript \<open>Map\<close>: iteration follows the order in which keys were
  first inserted, and \<open>set\<close> on a present key keeps its place. It is an association list.
\<close>

fun mapSet :: "'k \<Rightarrow> 'v \<Rightarrow> ('k \<times> 'v) list \<Rightarrow> ('k \<times> 'v) list" where
  "mapSet k v [] = [(k, v)]"
| "mapSet k v ((k', v') # m) = (if k' = k then (k, v) # m else (k', v') # mapSet k v m)"

definition colorGroups :: "string list \<Rightarrow> (string \<times> nat) list" where
  "colorGroups colors =
     foldl (\<lambda>m color.
        let quantized = quantizeToWebColors color
        in mapSet quantized ((case map_of m quantized of None \<Rightarrow> 0 | Some n \<Rightarrow> n) + 1) m)
       [] colors"

text \<open>
  \<open>Array.prototype.sort\<close> is stable; with the comparator \<open>b[1] - a[1]\<close> it sorts by
  descending count, as \<open>sort_key\<close> on the negated count does.
\<close>

definition topColors :: "string list \<Rightarrow> string list" where
  "topColors colors =
     map fst (take 10 (sort_key (\<lambda>e. - int (snd e)) (colorGroups colors)))"

definition findBestBackgroundColor :: "string list \<Rightarrow> string" where
  "findBestBackgroundColor colors =
     (let lightColors = filter (\<lambda>color. getLightness color > 60) colors
      in if length lightColors > 0 then lightColors ! 0
         else (case colors of
                 [] \<Rightarrow> ''#FFFFFF''
               | c # _ \<Rightarrow> if c = [] then ''#FFFFFF'' else c))"

text \<open>The loop of \<open>findBestTextColor\<close>, on the state \<open>(bestColor, maxContrast)\<close>;
  \<open>bg\<close> is the parameter \<open>background\<close>.\<close>

fun textColorLoop :: "string \<Rightarrow> string list \<Rightarrow> string \<times> real \<Rightarrow> string \<times> real" where
  "textColorLoop bg [] st = st"
| "textColorLoop bg (color # rest) (bestColor, maxContrast) =
     (if color = bg then textColorLoop bg rest (bestColor, maxContrast)
      else let contrast = calculateContrastRatio bg color
           in if contrast > maxContrast
              then textColorLoop bg rest (color, contrast)
              else textColorLoop bg rest (bestColor, maxContrast))"

definition findBestTextColor :: "string list \<Rightarrow> string \<Rightarrow> string" where
  "findBestTextColor colors bg =
     (case textColorLoop bg colors (''#000000'', 0) of
        (bestColor, maxContrast) \<Rightarrow>
          if maxContrast < 3
          then (if getLightness bg > 50 then ''#000000'' else ''#FFFFFF'')
          else bestColor)"

definition vibrantColors :: "string list" where
  "vibrantColors =
     [''#FF6B6B'', ''#4ECDC4'', ''#45B7D1'', ''#96CEB4'', ''#FFEAA7'', ''#DDA0DD'',
      ''#F7DC6F'', ''#BB8FCE'']"

text \<open>
  \<open>Math.random()\<close> returns a number \<open>u\<close> with \<open>0 \<le> u < 1\<close>. Each function that calls
  it takes the value returned at that call as an argument.
\<close>

definition generateVibrantColor :: "real \<Rightarrow> string" where
  "generateVibrantColor u = vibrantColors ! nat \<lfloor>u * real (length vibrantColors)\<rfloor>"

definition generateComplementary :: "string \<Rightarrow> string" where
  "generateComplementary hex =
     (let rgb = hexToRgb hex; comp = map (\<lambda>c. 255 - c) rgb
      in rgbToHex (comp ! 0) (comp ! 1) (comp ! 2))"

definition accents :: "(string \<times> string) list" where
  "accents =
     [(''#FF6B6B'', ''#4ECDC4''), (''#4ECDC4'', ''#FF6B6B''), (''#45B7D1'', ''#FFEAA7''),
      (''#96CEB4'', ''#DDA0DD''), (''#FFEAA7'', ''#45B7D1''), (''#DDA0DD'', ''#96CEB4'')]"

definition generateAccentColor :: "string \<Rightarrow> string" where
  "generateAccentColor base =
     (case map_of accents base of Some a \<Rightarrow> a | None \<Rightarrow> generateComplementary base)"

definition calculateAdvancedDominantColors :: "string list \<Rightarrow> real \<Rightarrow> dominantColors" where
  "calculateAdvancedDominantColors colors u =
     (if length colors = 0 then getDefaultColors
      else
        let top = topColors colors;
            bg = findBestBackgroundColor top;
            tc = findBestTextColor top bg;
            remaining = filter (\<lambda>c. c \<noteq> bg \<and> c \<noteq> tc) top;
            p = (if 0 < length remaining then remaining ! 0 else generateVibrantColor u);
            s = (if 1 < length remaining then remaining ! 1 else generateComplementary p);
            a = (if 2 < length remaining then remaining ! 2 else generateAccentColor p)
        in \<lparr>background = bg, textColor = tc, primary = p, secondary = s, accent = a\<rparr>)"

section \<open>Palette (class AIDesignAnalyzer)\<close>

text \<open>\<open>[...new Set(colors)]\<close>: the distinct elements, in order of first occurrence.\<close>

fun newSetLoop :: "'a list \<Rightarrow> 'a list \<Rightarrow> 'a list" where
  "newSetLoop seen [] = seen"
| "newSetLoop seen (x # xs) =
     (if x \<in> set seen then newSetLoop seen xs else newSetLoop (seen @ [x]) xs)"

definition newSet :: "'a list \<Rightarrow> 'a list" where
  "newSet xs = newSetLoop [] xs"

text \<open>
  The comparator of the sort, \<open>getLightness(b) - getLightness(a)\<close>, compares the
  lightness values as JavaScript computes them, in double precision. Two colours whose
  exact lightness is equal can differ there in the last bit (\<open>27/255 + 6/255\<close> against
  \<open>33/255 + 0\<close>), and this decides their order. \<open>lightness64\<close> is that double-precision
  function; it is an argument, and the statements about the palette assume of it only
  that it is close to the exact \<open>getLightness\<close>. The sort is stable and the comparator
  orders by descending \<open>lightness64\<close>.
\<close>

definition createAdvancedPalette :: "(string \<Rightarrow> real) \<Rightarrow> string list \<Rightarrow> string list" where
  "createAdvancedPalette lightness64 colors =
     (let unique = newSet colors in sort_key (\<lambda>c. - lightness64 c) unique)"

text \<open>
  The palette that \<open>extractRealColorsAdvanced\<close> returns for the sampled colours
  \<open>allColors\<close>: \<open>createAdvancedPalette(allColors).slice(0, 12)\<close>.
\<close>

definition exportedPalette :: "(string \<Rightarrow> real) \<Rightarrow> string list \<Rightarrow> string list" where
  "exportedPalette lightness64 allColors = take 12 (createAdvancedPalette lightness64 allColors)"

text \<open>
  The double-precision lightness differs from the exact one by less than a thousandth
  (its rounding error is many orders of magnitude smaller).
\<close>

definition closeToLightness :: "(string \<Rightarrow> real) \<Rightarrow> bool" where
  "closeToLightness lightness64 \<longleftrightarrow> (\<forall>c. \<bar>lightness64 c - getLightness c\<bar> < 1 / 1000)"

text \<open>
  The palette as the specification words it: the top ten quantized colours by descending
  frequency, deduplicated, sorted by descending lightness, at most twelve.
\<close>

definition specPalette :: "string list \<Rightarrow> string list" where
  "specPalette allColors =
     take 12 (sort_key (\<lambda>c. - getLightness c) (newSet (topColors allColors)))"

section \<open>Layout balance and symmetry (class AdvancedDesignAnalyzer)\<close>

text \<open>
  \<open>quarters\<close> is the array of the four quadrant weights, in the order top-left,
  top-right, bottom-left, bottom-right. \<open>Math.round x\<close> is \<open>\<lfloor>x + 1/2\<rfloor>\<close>, which is
  \<open>round x\<close>.
\<close>

definition calculateBalance :: "real list \<Rightarrow> real" where
  "calculateBalance quarters =
     (let total = foldl (\<lambda>sum val. sum + val) 0 quarters
      in if total = 0 then 50
         else
           let left = quarters ! 0 + quarters ! 2;
               right = quarters ! 1 + quarters ! 3;
               top = quarters ! 0 + quarters ! 1;
               bottom = quarters ! 2 + quarters ! 3;
               horizontalBalance = 100 - \<bar>(left - right) / total\<bar> * 100;
               verticalBalance = 100 - \<bar>(top - bottom) / total\<bar> * 100
           in real_of_int (round ((horizontalBalance + verticalBalance) / 2)))"

text \<open>
  A JavaScript division by zero does not raise: it yields \<open>NaN\<close> (for \<open>0 / 0\<close>) or an
  infinity. \<open>None\<close> stands for such a non-finite result; subtraction from 100, the
  multiplication by 50, the sum of the three comparisons, the division by 3 and
  \<open>Math.round\<close> all keep a non-finite operand non-finite.
\<close>

definition jsDivide :: "real \<Rightarrow> real \<Rightarrow> real option" where
  "jsDivide a b = (if b = 0 then None else Some (a / b))"

definition calculateSymmetry :: "real list \<Rightarrow> real option" where
  "calculateSymmetry quarters =
     (let topLeft = quarters ! 0;
          topRight = quarters ! 1;
          bottomLeft = quarters ! 2;
          bottomRight = quarters ! 3;
          horizontalSymmetry =
            map_option (\<lambda>q. 100 - q * 50) (jsDivide \<bar>topLeft - topRight\<bar> (max topLeft topRight));
          verticalSymmetry =
            map_option (\<lambda>q. 100 - q * 50) (jsDivide \<bar>topLeft - bottomLeft\<bar> (max topLeft bottomLeft));
          diagonalSymmetry =
            map_option (\<lambda>q. 100 - q * 50) (jsDivide \<bar>topLeft - bottomRight\<bar> (max topLeft bottomRight))
      in case (horizontalSymmetry, verticalSymmetry, diagonalSymmetry) of
           (Some h, Some v, Some d) \<Rightarrow> Some (real_of_int (round ((h + v + d) / 3)))
         | _ \<Rightarrow> None)"

section \<open>Quadrant visual weight (class AdvancedDesignAnalyzer)\<close>

definition getSaturation :: "nat \<Rightarrow> nat \<Rightarrow> nat \<Rightarrow> real" where
  "getSaturation r g b =
     (let mx = real (max (max r g) b) / 255;
          mn = real (min (min r g) b) / 255
      in if mx = 0 then 0 else (mx - mn) / mx)"

text \<open>The values of a loop counter that starts at 0 and steps by 2 while below \<open>n\<close>.\<close>

definition everySecond :: "nat \<Rightarrow> nat list" where
  "everySecond n = filter even [0 ..< n]"

text \<open>
  The body of the two nested loops of \<open>analyzeVisualWeight\<close>, at the pixel \<open>(x, y)\<close>.
  \<open>dat\<close> is the data of \<open>getImageData\<close> for a canvas \<open>wd\<close> wide and \<open>ht\<close> high, of
  length \<open>4 * wd * ht\<close>, so that every index read here is within it.
\<close>

definition addPixelWeight :: "nat list \<Rightarrow> nat \<Rightarrow> nat \<Rightarrow> nat \<Rightarrow> real list \<Rightarrow> nat \<Rightarrow> real list" where
  "addPixelWeight dat wd ht y quarters x =
     (let quarterWidth = wd div 2;
          quarterHeight = ht div 2;
          index = (y * wd + x) * 4;
          r = dat ! index;
          g = dat ! (index + 1);
          b = dat ! (index + 2);
          luminance = getLuminance_adv r g b;
          saturation = getSaturation r g b;
          weight = luminance * (1 + saturation);
          quarterIndex = (if x < quarterWidth then 0 else 1) + (if y < quarterHeight then 0 else 2)
      in quarters[quarterIndex := quarters ! quarterIndex + weight])"

definition analyzeVisualWeight :: "nat list \<Rightarrow> nat \<Rightarrow> nat \<Rightarrow> real list" where
  "analyzeVisualWeight dat wd ht =
     foldl (\<lambda>quarters y. foldl (addPixelWeight dat wd ht y) quarters (everySecond wd))
       [0, 0, 0, 0] (everySecond ht)"

section \<open>Score aggregation (class AdvancedDesignAnalyzer)\<close>

text \<open>
  The five sub-scores are fields of both the \<open>scores\<close> object of \<open>calculateScores\<close> and
  the \<open>DesignAnalysis\<close> object; the two records extend one record that holds them. Its
  parameter is the type of the numbers: \<open>real option\<close> in \<open>calculateScores\<close>, where a
  number can be \<open>NaN\<close> (\<open>None\<close> stands for a number that is not finite, as in
  \<open>calculateSymmetry\<close>), and \<open>real\<close> in the first analyzer, where all are finite.
\<close>

record 'n subScores =
  textReadability :: 'n
  colorScore :: 'n
  layoutScore :: 'n
  visualHierarchy :: 'n
  spacingScore :: 'n

record scores = "real option subScores" +
  overall :: "real option"

record textAnalysis =
  extractedText :: string
  wordCount :: nat
  hasHeadings :: bool

record layoutAnalysis =
  balance :: "real option"
  symmetry :: "real option"
  gridQuality :: "real option"
  visualWeight :: "real option"

definition calculateVisualWeight :: "real list \<Rightarrow> real" where
  "calculateVisualWeight quarters =
     (let total = foldl (\<lambda>sum val. sum + val) 0 quarters
      in if total = 0 then 50
         else
           let variance = foldl (\<lambda>sum val. sum + (val - total / 4)\<^sup>2) 0 quarters / 4
           in max 0 (100 - (variance / total) * 100))"

text \<open>
  \<open>analyzeLayout\<close> of the second analyzer, on the image data of the canvas. The result
  \<open>g\<close> of \<open>analyzeGridAlignment\<close> is passed in.
\<close>

definition analyzeLayout_adv :: "nat list \<Rightarrow> nat \<Rightarrow> nat \<Rightarrow> real option \<Rightarrow> layoutAnalysis" where
  "analyzeLayout_adv dat wd ht g =
     (let quarters = analyzeVisualWeight dat wd ht
      in \<lparr>balance = Some (calculateBalance quarters),
          symmetry = calculateSymmetry quarters,
          gridQuality = g,
          visualWeight = Some (calculateVisualWeight quarters)\<rparr>)"

text \<open>The nested loops of \<open>calculateColorHarmony\<close>: 5 for every pair \<open>i < j\<close> whose contrast lies strictly between 2 and 8.\<close>

fun harmonyPairs :: "string list \<Rightarrow> real" where
  "harmonyPairs [] = 0"
| "harmonyPairs (p # ps) =
     sum_list (map (\<lambda>q. let contrast = calculateColorContrast p q
                         in if contrast > 2 \<and> contrast < 8 then 5 else 0) ps)
       + harmonyPairs ps"

definition calculateColorHarmony :: "string list \<Rightarrow> real" where
  "calculateColorHarmony palette = min 20 (harmonyPairs palette)"

definition calculateColorScore :: "string list \<Rightarrow> real" where
  "calculateColorScore palette =
     (if length palette < 3 then 40
      else min 100 (50 + min (real (length palette) * 5) 30 + calculateColorHarmony palette))"

text \<open>
  \<open>calculateScores\<close> reads \<open>wordCount\<close> and \<open>hasHeadings\<close> of the text analysis, the
  palette of the colour analysis and the four numbers of the layout analysis; its fourth
  argument, the contrast analysis, is not read. A sum, a product or a quotient with an
  operand that is not finite is not finite, and so is its \<open>Math.round\<close>.

  The weighted sum is evaluated in double precision, where 0.2, 0.3, 0.15 and 0.1 are
  not exact and every product and sum is rounded. \<open>e\<close> is the difference between the
  double result and the exact sum; it decides \<open>Math.round\<close> when the exact sum lies
  within \<open>e\<close> of a half.
\<close>

definition calculateScores :: "textAnalysis \<Rightarrow> string list \<Rightarrow> layoutAnalysis \<Rightarrow> real \<Rightarrow> scores" where
  "calculateScores ta palette la e =
     (let tr = min 100 (real (wordCount ta) * 2 + (if hasHeadings ta then 30 else 10));
          cs = calculateColorScore palette;
          ls = (case (balance la, symmetry la, gridQuality la) of
                  (Some b, Some s, Some g) \<Rightarrow> Some ((b + s + g) / 3)
                | _ \<Rightarrow> None);
          vh = visualWeight la;
          ss = gridQuality la;
          ov = (case (ls, vh, ss) of
                  (Some l, Some v, Some s) \<Rightarrow>
                    Some (real_of_int (round (tr * 0.2 + cs * 0.25 + l * 0.3 + v * 0.15 + s * 0.1 + e)))
                | _ \<Rightarrow> None)
      in \<lparr>textReadability = Some tr, colorScore = Some cs, layoutScore = ls,
          visualHierarchy = vh, spacingScore = ss, overall = ov\<rparr>)"

section \<open>The analysis entry point (class AIDesignAnalyzer)\<close>

record designAnalysis = "real subScores" +
  analysisText :: string
  dominant :: dominantColors
  colorPalette :: "string list"
  contrastRatio :: real

text \<open>
  \<open>analysisText\<close> is the field \<open>extractedText\<close> and \<open>dominant\<close> the field
  \<open>dominantColors\<close> of the source's \<open>DesignAnalysis\<close>.
\<close>

record designFeedback =
  overallScore :: real
  improvementSuggestions :: "string list"
  strengths :: "string list"
  analysis :: designAnalysis

record analysisResult =
  success :: bool
  feedback :: designFeedback
  resultAnalysis :: "designAnalysis option"

text \<open>\<open>resultAnalysis\<close> is the optional top-level field \<open>analysis\<close> of \<open>AnalysisResult\<close>.\<close>

text \<open>
  The decoded image: its size and the RGBA bytes that \<open>getImageData\<close> returns for the
  canvas it was drawn on, row by row.
\<close>

record image =
  width :: nat
  height :: nat
  pixels :: "nat list"

definition isGray :: "nat \<Rightarrow> nat \<Rightarrow> nat \<Rightarrow> bool" where
  "isGray r g b =
     (let maxDiff = 20
      in \<bar>int r - int g\<bar> < maxDiff \<and> \<bar>int r - int b\<bar> < maxDiff \<and> \<bar>int g - int b\<bar> < maxDiff)"

text \<open>The five sampled regions \<open>(x, y, w, h)\<close> of an image \<open>wd\<close> wide and \<open>ht\<close> high.\<close>

definition regions :: "nat \<Rightarrow> nat \<Rightarrow> (real \<times> real \<times> real \<times> real) list" where
  "regions wd ht =
     [(0, 0, real wd * 0.3, real ht * 0.2),
      (real wd * 0.35, 0, real wd * 0.3, real ht * 0.15),
      (real wd * 0.2, real ht * 0.3, real wd * 0.6, real ht * 0.4),
      (0, real ht * 0.8, real wd, real ht * 0.2),
      (real wd * 0.8, 0, real wd * 0.2, real ht)]"

text \<open>
  Reading a typed array outside its bounds yields \<open>undefined\<close>, here \<open>None\<close>;
  \<open>undefined > 128\<close> is false, so such a pixel is skipped.
\<close>

definition byteAt :: "nat list \<Rightarrow> int \<Rightarrow> nat option" where
  "byteAt dat i = (if 0 \<le> i \<and> nat i < length dat then Some (dat ! nat i) else None)"

text \<open>
  One iteration of the sampling loop; \<open>ux\<close> and \<open>uy\<close> are the values of its two calls of
  \<open>Math.random()\<close>. The result is the list of colours it pushes: one or none.
\<close>

definition sampleOnce :: "nat list \<Rightarrow> nat \<Rightarrow> nat \<Rightarrow> real \<times> real \<times> real \<times> real \<Rightarrow> real \<times> real \<Rightarrow> string list" where
  "sampleOnce dat wd ht region u =
     (case region of (rx, ry, rw, rh) \<Rightarrow>
      case u of (ux, uy) \<Rightarrow>
        let x = \<lfloor>rx + ux * rw\<rfloor>;
            y = \<lfloor>ry + uy * rh\<rfloor>
        in if x < int wd \<and> y < int ht
           then
             let index = (y * int wd + x) * 4
             in (case (byteAt dat index, byteAt dat (index + 1), byteAt dat (index + 2),
                       byteAt dat (index + 3)) of
                   (Some r, Some g, Some b, Some a) \<Rightarrow>
                     if a > 128 \<and> \<not> isGray r g b then [rgbToHex r g b] else []
                 | _ \<Rightarrow> [])
           else [])"

text \<open>
  The sampler: for each region in turn, 800 iterations. \<open>draws k i\<close> is the pair of
  random numbers of iteration \<open>i\<close> in region \<open>k\<close>.
\<close>

definition sampleStrategicRegions :: "nat list \<Rightarrow> nat \<Rightarrow> nat \<Rightarrow> (nat \<Rightarrow> nat \<Rightarrow> real \<times> real) \<Rightarrow> string list" where
  "sampleStrategicRegions dat wd ht draws =
     concat (map (\<lambda>k. concat (map (\<lambda>i. sampleOnce dat wd ht (regions wd ht ! k) (draws k i))
                                 [0 ..< 800]))
               [0 ..< length (regions wd ht)])"

text \<open>
  The values that \<open>Math.random()\<close> returns during one run, by call site: the sampler's
  draws, the draw of \<open>generateVibrantColor\<close>, of \<open>analyzeVisualHierarchy\<close> and of
  \<open>analyzeSpacing\<close>. The analysis has no seed parameter.
\<close>

record randomDraws =
  samplerDraws :: "nat \<Rightarrow> nat \<Rightarrow> real \<times> real"
  vibrantDraw :: real
  hierarchyDraw :: real
  spacingDraw :: real

definition calculateReadabilityScore :: "real \<Rightarrow> real" where
  "calculateReadabilityScore contrast =
     min 100 (max 40 (real_of_int \<lfloor>contrast * 8 + 30\<rfloor>))"

definition calculateAdvancedColorScore :: "string list \<Rightarrow> dominantColors \<Rightarrow> real" where
  "calculateAdvancedColorScore palette dc =
     (let uniqueColors = card (set palette);
          score = 70 + min 15 (real uniqueColors * 2);
          contrast = calculateContrastRatio (background dc) (textColor dc);
          score' = (if contrast > 7 then score + 10
                    else if contrast > 4.5 then score + 5 else score)
      in min 95 score')"

text \<open>
  \<open>image.width / image.height\<close> with height 0 is \<open>Infinity\<close> or \<open>NaN\<close>: all three
  comparisons are false and the score stays 75.
\<close>

definition analyzeLayout :: "image \<Rightarrow> real" where
  "analyzeLayout img =
     (if height img = 0 then 75
      else
        let aspectRatio = real (width img) / real (height img);
            s1 = (if \<bar>aspectRatio - 1.618\<bar> < 0.1 then 75 + 10 else 75);
            s2 = (if \<bar>aspectRatio - 1.777\<bar> < 0.1 then s1 + 8 else s1);
            s3 = (if \<bar>aspectRatio - 1.5\<bar> < 0.1 then s2 + 7 else s2)
        in min 95 s3)"

definition analyzeVisualHierarchy :: "real \<Rightarrow> real" where
  "analyzeVisualHierarchy u = 65 + real_of_int \<lfloor>u * 30\<rfloor>"

definition analyzeSpacing :: "real \<Rightarrow> real" where
  "analyzeSpacing u = 70 + real_of_int \<lfloor>u * 25\<rfloor>"

text \<open>
  \<open>extractRealColorsAdvanced\<close>: the dominant colours, the palette and the contrast of the
  sampled colours.
\<close>

definition extractRealColorsAdvanced :: "(string \<Rightarrow> real) \<Rightarrow> image \<Rightarrow> randomDraws \<Rightarrow> dominantColors \<times> string list \<times> real" where
  "extractRealColorsAdvanced lightness64 img d =
     (let allColors = sampleStrategicRegions (pixels img) (width img) (height img) (samplerDraws d);
          dc = calculateAdvancedDominantColors allColors (vibrantDraw d);
          palette = createAdvancedPalette lightness64 allColors;
          contrast = calculateContrastRatio (background dc) (textColor dc)
      in (dc, take 12 palette, contrast))"

datatype error = IngestionError

text \<open>
  \<open>loadImage\<close> rejects when the file does not decode. A file is its decoded image, or
  \<open>None\<close> when it is unreadable or corrupt.
\<close>

definition loadImage :: "image option \<Rightarrow> error + image" where
  "loadImage file = (case file of None \<Rightarrow> Inl IngestionError | Some img \<Rightarrow> Inr img)"

definition getDefaultAnalysis :: designAnalysis where
  "getDefaultAnalysis =
     \<lparr>textReadability = 0, colorScore = 0, layoutScore = 0, visualHierarchy = 0,
      spacingScore = 0, analysisText = '''', dominant = getDefaultColors,
      colorPalette = [''#FFFFFF'', ''#333333'', ''#007BFF'', ''#6C757D'', ''#FF6B6B''],
      contrastRatio = 0\<rparr>"

definition getFallbackResult :: analysisResult where
  "getFallbackResult =
     \<lparr>success = False,
      feedback =
        \<lparr>overallScore = 0,
         improvementSuggestions = [''Analysis failed. Please try with a clear design screenshot.''],
         strengths = [''The design shows potential with its visual approach''],
         analysis = getDefaultAnalysis\<rparr>,
      resultAnalysis = None\<rparr>"

text \<open>
  The body of the \<open>try\<close> block. The narrative feedback of
  \<open>generateAdvancedHumanFeedback\<close> (suggestions and strengths) is passed in: it is text
  for display and no metric depends on it. \<open>lightness64\<close> is the double-precision
  lightness that orders the palette.
\<close>

definition analyzeDesignBody :: "(string \<Rightarrow> real) \<Rightarrow> image option \<Rightarrow> randomDraws \<Rightarrow> string list \<times> string list \<Rightarrow> error + analysisResult" where
  "analyzeDesignBody lightness64 file d aiFeedback =
     (case loadImage file of
        Inl e \<Rightarrow> Inl e
      | Inr img \<Rightarrow>
          (case extractRealColorsAdvanced lightness64 img d of (dc, palette, contrast) \<Rightarrow>
             let a = \<lparr>textReadability = calculateReadabilityScore contrast,
                      colorScore = calculateAdvancedColorScore palette dc,
                      layoutScore = analyzeLayout img,
                      visualHierarchy = analyzeVisualHierarchy (hierarchyDraw d),
                      spacingScore = analyzeSpacing (spacingDraw d),
                      analysisText = ''Advanced analysis of design composition and visual elements'',
                      dominant = dc,
                      colorPalette = palette,
                      contrastRatio = contrast\<rparr>;
                 os = real_of_int (round ((textReadability a + colorScore a + layoutScore a
                         + visualHierarchy a + spacingScore a) / 5))
             in Inr \<lparr>success = True,
                     feedback = \<lparr>overallScore = os,
                                 improvementSuggestions = fst aiFeedback,
                                 strengths = snd aiFeedback,
                                 analysis = a\<rparr>,
                     resultAnalysis = Some a\<rparr>))"

text \<open>
  \<open>analyzeDesign\<close>: the \<open>catch\<close> clause turns every error of the body into the fallback
  result, which is returned normally.
\<close>

definition analyzeDesign :: "(string \<Rightarrow> real) \<Rightarrow> image option \<Rightarrow> randomDraws \<Rightarrow> string list \<times> string list \<Rightarrow> error + analysisResult" where
  "analyzeDesign lightness64 file d aiFeedback =
     (case analyzeDesignBody lightness64 file d aiFeedback of
        Inl e \<Rightarrow> Inr getFallbackResult
      | Inr r \<Rightarrow> Inr r)"

section \<open>Inputs and predicates of the statements\<close>

text \<open>An image of a single colour: every pixel is \<open>(r, g, b, a)\<close>.\<close>

definition flatImage :: "nat \<Rightarrow> nat \<Rightarrow> nat \<Rightarrow> nat \<Rightarrow> nat \<Rightarrow> nat \<Rightarrow> image" where
  "flatImage wd ht r g b a =
     \<lparr>width = wd, height = ht, pixels = concat (replicate (wd * ht) [r, g, b, a])\<rparr>"

text \<open>Every call of \<open>Math.random()\<close> in the sampler returned a number in \<open>[0, 1)\<close>.\<close>

definition unitDraws :: "(nat \<Rightarrow> nat \<Rightarrow> real \<times> real) \<Rightarrow> bool" where
  "unitDraws draws \<longleftrightarrow>
     (\<forall>k i. 0 \<le> fst (draws k i) \<and> fst (draws k i) < 1 \<and> 0 \<le> snd (draws k i) \<and> snd (draws k i) < 1)"

text \<open>A run in which every call of \<open>Math.random()\<close> returned 0.\<close>

definition zeroDraws :: randomDraws where
  "zeroDraws = \<lparr>samplerDraws = (\<lambda>k i. (0, 0)), vibrantDraw = 0, hierarchyDraw = 0, spacingDraw = 0\<rparr>"

section \<open>Hex conversion: facts\<close>

lemma upt_16: "[0 ..< 16] = [0,1,2,3,4,5,6,7,8,9,10,11,12,13,14,15::nat]"
  by code_simp

lemma hexDigits_values: "map hexDigitValue hexDigits = map Some [0 ..< 16]"
  by (simp add: hexDigits_def hexDigitValue_def upt_16)

lemma hexDigits_all: "list_all isHexDigit hexDigits"
  by (simp add: hexDigits_def isHexDigit_def)

lemma hexDigits_length: "length hexDigits = 16"
  by (simp add: hexDigits_def)

lemma hexDigits_nth:
  assumes "d < 16"
  shows "isHexDigit (hexDigits ! d)" and "hexDigitValue (hexDigits ! d) = Some d"
proof -
  from assms have d: "d < length hexDigits" by (simp add: hexDigits_length)
  from hexDigits_all d show "isHexDigit (hexDigits ! d)"
    by (simp add: list_all_length)
  have "hexDigitValue (hexDigits ! d) = map hexDigitValue hexDigits ! d"
    using d by simp
  also have "\<dots> = Some d"
    using assms by (simp only: hexDigits_values) simp
  finally show "hexDigitValue (hexDigits ! d) = Some d" .
qed

lemma hexDigits_0: "hexDigits ! 0 = CHR ''0''"
  by (simp add: hexDigits_def)

text \<open>A byte prints as exactly two digits: the high and the low nibble.\<close>

lemma toString16_byte:
  assumes "n < 256"
  shows "padStart 2 (CHR ''0'') (toString16 n) = [hexDigits ! (n div 16), hexDigits ! (n mod 16)]"
proof (cases "n < 16")
  case True
  then show ?thesis
    by (simp add: toString16.simps [of n] padStart_def hexDigits_0)
next
  case False
  with assms have "n div 16 < 16" by simp
  then have "toString16 (n div 16) = [hexDigits ! (n div 16)]"
    by (simp add: toString16.simps [of "n div 16"])
  with False show ?thesis
    by (simp add: toString16.simps [of n] padStart_def)
qed

lemma parseInt16_pair:
  assumes "n < 256"
  shows "parseInt16 [hexDigits ! (n div 16), hexDigits ! (n mod 16)] = n"
proof -
  from assms have "n div 16 < 16" "n mod 16 < 16" by simp_all
  then show ?thesis
    by (simp add: parseInt16_def hexDigits_nth)
qed

lemma hexExec_rgbToHex:
  assumes "r < 256" "g < 256" "b < 256"
  shows "hexExec (rgbToHex r g b) =
      Some ([hexDigits ! (r div 16), hexDigits ! (r mod 16)],
            [hexDigits ! (g div 16), hexDigits ! (g mod 16)],
            [hexDigits ! (b div 16), hexDigits ! (b mod 16)])"
proof -
  have d: "isHexDigit (hexDigits ! (n div 16)) \<and> isHexDigit (hexDigits ! (n mod 16))"
    if "n < 256" for n
    using that by (simp add: hexDigits_nth)
  show ?thesis
    using assms d [of r] d [of g] d [of b]
    by (simp add: hexExec_def rgbToHex_def toString16_byte)
qed

lemma hexToRgb_rgbToHex:
  assumes "r < 256" "g < 256" "b < 256"
  shows "hexToRgb (rgbToHex r g b) = [r, g, b]"
  using assms by (simp add: hexToRgb_def hexExec_rgbToHex parseInt16_pair)

lemma hexExec_Some_matches:
  assumes "hexExec s = Some gs"
  shows "matchesHexPattern s"
proof -
  define body where "body = (case s of [] \<Rightarrow> s | c # cs \<Rightarrow> if c = CHR ''#'' then cs else s)"
  from assms have b: "length body = 6" "list_all isHexDigit body"
    by (auto simp: hexExec_def body_def Let_def split: if_splits)
  have "s = body \<or> s = CHR ''#'' # body"
    by (auto simp: body_def split: list.splits)
  with b show ?thesis
    unfolding matchesHexPattern_def by (auto simp: list_all_iff)
qed

lemma hexToRgb_no_match:
  assumes "\<not> matchesHexPattern s"
  shows "hexToRgb s = [0, 0, 0]"
proof (cases "hexExec s")
  case None
  then show ?thesis by (simp add: hexToRgb_def)
next
  case (Some gs)
  with assms hexExec_Some_matches show ?thesis by blast
qed

lemma not_matches_short: "length s < 6 \<Longrightarrow> \<not> matchesHexPattern s"
  by (auto simp: matchesHexPattern_def)

lemma hexToRgb_length: "length (hexToRgb hex) = 3"
  by (simp add: hexToRgb_def split: option.splits prod.splits)

lemma hexToRgb_black: "hexToRgb ''#000000'' = [0, 0, 0]"
  by code_simp

lemma hexToRgb_white: "hexToRgb ''#FFFFFF'' = [255, 255, 255]"
  by code_simp

text \<open>
  C10. For every byte triple \<open>(r, g, b)\<close>, \<open>hexToRgb (rgbToHex r g b)\<close> is
  \<open>[r, g, b]\<close>, and \<open>hexToRgb\<close> of a string that does not match the six-hex-digit
  pattern is \<open>[0, 0, 0]\<close>.
\<close>

theorem hex_roundtrip_and_default:
  "(r < 256 \<and> g < 256 \<and> b < 256 \<longrightarrow> hexToRgb (rgbToHex r g b) = [r, g, b]) \<and>
   (\<not> matchesHexPattern s \<longrightarrow> hexToRgb s = [0, 0, 0])"
  using hexToRgb_rgbToHex hexToRgb_no_match by blast

theorem hex_roundtrip_and_default_witness:
  "hexToRgb (rgbToHex 255 107 9) = [255, 107, 9] \<and>
   \<not> matchesHexPattern ''red'' \<and> hexToRgb ''red'' = [0, 0, 0]"
proof -
  have n: "\<not> matchesHexPattern ''red''"
    by (rule not_matches_short) simp
  show ?thesis
    using hex_roundtrip_and_default [of 255 107 9 "''red''"] n by simp
qed

section \<open>Luminance and contrast: facts\<close>

lemma wcagLinear_nonneg: "0 \<le> c \<Longrightarrow> 0 \<le> wcagLinear c"
  by (simp add: wcagLinear_def)

lemma wcagLinear_0: "wcagLinear 0 = 0"
  by (simp add: wcagLinear_def)

lemma wcagLinear_1: "wcagLinear 1 = 1"
  by (simp add: wcagLinear_def)

lemma getLuminance_adv_wcag: "getLuminance_adv r g b = wcagLuminance r g b"
  by (simp add: getLuminance_adv_def wcagLuminance_def wcagLinear_def Let_def)

lemma getLuminance_wcag:
  "getLuminance hex = wcagLuminance (hexToRgb hex ! 0) (hexToRgb hex ! 1) (hexToRgb hex ! 2)"
  by (simp add: getLuminance_def wcagLuminance_def wcagLinear_def Let_def hexToRgb_length)

lemma wcagLuminance_nonneg: "0 \<le> wcagLuminance r g b"
  by (simp add: wcagLuminance_def wcagLinear_nonneg)

lemma getLuminance_nonneg: "0 \<le> getLuminance h"
  by (simp add: getLuminance_wcag wcagLuminance_nonneg)

lemma wcagLuminance_black: "wcagLuminance 0 0 0 = 0"
  by (simp add: wcagLuminance_def wcagLinear_0)

lemma wcagLuminance_white: "wcagLuminance 255 255 255 = 1"
  by (simp add: wcagLuminance_def wcagLinear_1)

text \<open>
  C6. Both relative-luminance functions compute the WCAG 2.x definition: each channel,
  normalised to 0..1, is linearised as \<open>c / 12.92\<close> when \<open>c \<le> 0.03928\<close> and as
  \<open>((c + 0.055) / 1.055) ^ 2.4\<close> otherwise, and the three are weighted
  0.2126 / 0.7152 / 0.0722. Pure black has luminance 0 and pure white luminance 1.
\<close>

theorem luminance_is_wcag:
  "getLuminance hex = wcagLuminance (hexToRgb hex ! 0) (hexToRgb hex ! 1) (hexToRgb hex ! 2) \<and>
   getLuminance_adv r g b = wcagLuminance r g b \<and>
   getLuminance ''#000000'' = 0 \<and> getLuminance ''#FFFFFF'' = 1 \<and>
   getLuminance_adv 0 0 0 = 0 \<and> getLuminance_adv 255 255 255 = 1"
  by (simp add: getLuminance_wcag getLuminance_adv_wcag hexToRgb_black hexToRgb_white
      wcagLuminance_black wcagLuminance_white)

text \<open>
  C5. The contrast ratio of two colours is symmetric in its arguments and at least 1,
  in both analyzers, and in both it is
  (brighter luminance + 0.05) / (darker luminance + 0.05).
\<close>

theorem contrast_symmetric_ge_1:
  "calculateContrastRatio a b = calculateContrastRatio b a \<and>
   1 \<le> calculateContrastRatio a b \<and>
   calculateContrastRatio a b =
     (max (getLuminance a) (getLuminance b) + 0.05) / (min (getLuminance a) (getLuminance b) + 0.05) \<and>
   calculateColorContrast a b = calculateColorContrast b a \<and>
   1 \<le> calculateColorContrast a b \<and>
   calculateColorContrast a b =
     (max (getLuminanceFromHex a) (getLuminanceFromHex b) + 0.05)
       / (min (getLuminanceFromHex a) (getLuminanceFromHex b) + 0.05)"
proof -
  have r: "(max x y + 0.05) / (min x y + 0.05) = (max y x + 0.05) / (min y x + 0.05) \<and>
           1 \<le> (max x y + 0.05) / (min x y + 0.05)"
    if "0 \<le> x" "0 \<le> y" for x y :: real
    using that by (simp add: max.commute min.commute)
  have l2: "0 \<le> getLuminanceFromHex h" for h
    by (simp add: getLuminanceFromHex_def getLuminance_adv_wcag wcagLuminance_nonneg Let_def)
  show ?thesis
    using r [OF getLuminance_nonneg [of a] getLuminance_nonneg [of b]] r [OF l2 [of a] l2 [of b]]
    by (simp add: calculateContrastRatio_def calculateColorContrast_def Let_def)
qed

section \<open>Quantizer: facts\<close>

text \<open>
  The loop invariant, from a state whose \<open>minDistance\<close> is the distance of its
  \<open>closestColor\<close>: afterwards either the state is unchanged and nothing in the list was
  strictly nearer, or the result is the first nearest entry of the list and strictly
  nearer than the starting colour.
\<close>

lemma firstNearest_0:
  "\<forall>x \<in> set ws. d w \<le> d x \<Longrightarrow> firstNearest d (w # ws) 0"
  by (auto simp: firstNearest_def nth_Cons')

lemma firstNearest_Suc:
  "firstNearest d ws i \<Longrightarrow> d (ws ! i) < d w \<Longrightarrow> firstNearest d (w # ws) (Suc i)"
  by (auto simp: firstNearest_def nth_Cons' less_Suc_eq_0_disj)

lemma quantizeLoop_Some:
  "\<exists>c'. quantizeLoop hex ws (c, Some (colorDistance hex c)) = (c', Some (colorDistance hex c')) \<and>
     ((c' = c \<and> (\<forall>w \<in> set ws. colorDistance hex c \<le> colorDistance hex w)) \<or>
      (\<exists>i. firstNearest (colorDistance hex) ws i \<and> c' = ws ! i \<and>
           colorDistance hex c' < colorDistance hex c))"
proof (induction ws arbitrary: c)
  case Nil
  then show ?case by simp
next
  case (Cons w ws)
  let ?d = "colorDistance hex"
  show ?case
  proof (cases "?d w < ?d c")
    case True
    from Cons.IH [of w] obtain c' where
      q: "quantizeLoop hex ws (w, Some (?d w)) = (c', Some (?d c'))" and
      alt: "(c' = w \<and> (\<forall>x \<in> set ws. ?d w \<le> ?d x)) \<or>
            (\<exists>i. firstNearest ?d ws i \<and> c' = ws ! i \<and> ?d c' < ?d w)"
      by blast
    from alt have "\<exists>i. firstNearest ?d (w # ws) i \<and> c' = (w # ws) ! i \<and> ?d c' < ?d c"
    proof
      assume a: "c' = w \<and> (\<forall>x \<in> set ws. ?d w \<le> ?d x)"
      then have "firstNearest ?d (w # ws) 0" by (simp add: firstNearest_0)
      with a True show ?thesis by auto
    next
      assume "\<exists>i. firstNearest ?d ws i \<and> c' = ws ! i \<and> ?d c' < ?d w"
      then obtain i where i: "firstNearest ?d ws i" "c' = ws ! i" "?d c' < ?d w" by blast
      then have "firstNearest ?d (w # ws) (Suc i)" by (simp add: firstNearest_Suc)
      with i True show ?thesis by force
    qed
    with q True show ?thesis by (auto simp: Let_def)
  next
    case False
    from Cons.IH [of c] obtain c' where
      q: "quantizeLoop hex ws (c, Some (?d c)) = (c', Some (?d c'))" and
      alt: "(c' = c \<and> (\<forall>x \<in> set ws. ?d c \<le> ?d x)) \<or>
            (\<exists>i. firstNearest ?d ws i \<and> c' = ws ! i \<and> ?d c' < ?d c)"
      by blast
    from alt have "(c' = c \<and> (\<forall>x \<in> set (w # ws). ?d c \<le> ?d x)) \<or>
            (\<exists>i. firstNearest ?d (w # ws) i \<and> c' = (w # ws) ! i \<and> ?d c' < ?d c)"
    proof
      assume "c' = c \<and> (\<forall>x \<in> set ws. ?d c \<le> ?d x)"
      with False show ?thesis by auto
    next
      assume "\<exists>i. firstNearest ?d ws i \<and> c' = ws ! i \<and> ?d c' < ?d c"
      then obtain i where i: "firstNearest ?d ws i" "c' = ws ! i" "?d c' < ?d c" by blast
      with False have "firstNearest ?d (w # ws) (Suc i)" by (simp add: firstNearest_Suc)
      with i show ?thesis by force
    qed
    with q False show ?thesis by (auto simp: Let_def)
  qed
qed

text \<open>From \<open>Infinity\<close> the first entry is always taken; then the invariant applies.\<close>

lemma quantizeLoop_first:
  "\<exists>i. firstNearest (colorDistance hex) (w # ws) i \<and>
       fst (quantizeLoop hex (w # ws) (c0, None)) = (w # ws) ! i"
proof -
  let ?d = "colorDistance hex"
  from quantizeLoop_Some [of hex ws w] obtain c' where
    q: "quantizeLoop hex ws (w, Some (?d w)) = (c', Some (?d c'))" and
    alt: "(c' = w \<and> (\<forall>x \<in> set ws. ?d w \<le> ?d x)) \<or>
          (\<exists>i. firstNearest ?d ws i \<and> c' = ws ! i \<and> ?d c' < ?d w)"
    by blast
  from alt have "\<exists>i. firstNearest ?d (w # ws) i \<and> c' = (w # ws) ! i"
  proof
    assume a: "c' = w \<and> (\<forall>x \<in> set ws. ?d w \<le> ?d x)"
    then have "firstNearest ?d (w # ws) 0" by (simp add: firstNearest_0)
    with a show ?thesis by auto
  next
    assume "\<exists>i. firstNearest ?d ws i \<and> c' = ws ! i \<and> ?d c' < ?d w"
    then obtain i where i: "firstNearest ?d ws i" "c' = ws ! i" "?d c' < ?d w" by blast
    then have "firstNearest ?d (w # ws) (Suc i)" by (simp add: firstNearest_Suc)
    with i show ?thesis by force
  qed
  with q show ?thesis by (simp add: Let_def)
qed

lemma colorDistance_euclidean:
  "colorDistance a b = euclideanRgb (hexToRgb a) (hexToRgb b)"
  by (simp add: colorDistance_def euclideanRgb_def Let_def lessThan_Suc eval_nat_numeral)

lemma webColors_Cons: "webColors = hd webColors # tl webColors"
  by (simp add: webColors_def)

lemma webColors_rgb:
  "map hexToRgb webColors =
   [[255,0,0],[0,255,0],[0,0,255],[255,255,0],[255,0,255],[0,255,255],
    [255,107,107],[78,205,196],[69,183,209],[150,206,180],[255,234,167],[221,160,221],
    [152,216,200],[247,220,111],[187,143,206],[133,193,233],[248,196,113],[130,224,170],
    [231,76,60],[52,152,219],[46,204,113],[243,156,18],[155,89,182],[26,188,156],
    [0,0,0],[255,255,255],[51,51,51],[102,102,102],[153,153,153],[204,204,204]]"
  by code_simp

lemmas web_rgb = webColors_rgb [unfolded webColors_def list.map list.inject]

lemma rgb_green: "hexToRgb ''#00ff00'' = [0, 255, 0]"
  by code_simp

lemma rgb_red1: "hexToRgb ''#ff0101'' = [255, 1, 1]"
  by code_simp

lemma quantize_green: "quantizeToWebColors ''#00ff00'' = ''#00FF00''"
  by (simp add: quantizeToWebColors_def webColors_def colorDistance_def web_rgb rgb_green Let_def)

lemma quantize_red1: "quantizeToWebColors ''#ff0101'' = ''#FF0000''"
  by (simp add: quantizeToWebColors_def webColors_def colorDistance_def web_rgb rgb_red1 Let_def)

text \<open>
  C8. Quantization returns an entry of the fixed reference palette that is nearest to
  the input under the Euclidean RGB distance \<open>colorDistance\<close>, and among the nearest
  entries the first in declaration order: every earlier entry is strictly farther. As a
  function of the input colour alone, it maps the same input to the same entry.
\<close>

theorem quantize_nearest_first:
  "(\<exists>i. firstNearest (colorDistance hex) webColors i \<and> quantizeToWebColors hex = webColors ! i) \<and>
   colorDistance hex w = euclideanRgb (hexToRgb hex) (hexToRgb w)"
proof
  show "\<exists>i. firstNearest (colorDistance hex) webColors i \<and> quantizeToWebColors hex = webColors ! i"
    unfolding quantizeToWebColors_def
    using quantizeLoop_first [of hex "hd webColors" "tl webColors" "webColors ! 0"]
    by (simp add: webColors_Cons [symmetric])
  show "colorDistance hex w = euclideanRgb (hexToRgb hex) (hexToRgb w)"
    by (rule colorDistance_euclidean)
qed

theorem quantize_nearest_first_witness:
  "colorDistance ''#ff0101'' (quantizeToWebColors ''#ff0101'')
     \<le> colorDistance ''#ff0101'' ''#00FF00''"
proof -
  from quantize_nearest_first [of "''#ff0101''" "''#00FF00''"] obtain i where
    i: "firstNearest (colorDistance ''#ff0101'') webColors i"
       "quantizeToWebColors ''#ff0101'' = webColors ! i"
    by blast
  have "(1::nat) < length webColors" and "webColors ! 1 = ''#00FF00''"
    by (simp_all add: webColors_def)
  with i show ?thesis
    unfolding firstNearest_def by metis
qed

section \<open>Dominant colours of a flat green image\<close>

text \<open>
  Every pixel of a flat pure-green image is \<open>(0, 255, 0)\<close> with full alpha: it is not
  gray, so every draw of the sampler yields the sample \<open>#00ff00\<close>.
\<close>

lemma colorGroups_step:
  "foldl (\<lambda>m color.
        let quantized = quantizeToWebColors color
        in mapSet quantized ((case map_of m quantized of None \<Rightarrow> 0 | Some n \<Rightarrow> n) + 1) m)
       [(quantizeToWebColors c, k)] (replicate n c) = [(quantizeToWebColors c, k + n)]"
  by (induction n arbitrary: k) (simp_all add: Let_def)

lemma colorGroups_replicate:
  "colorGroups (replicate (Suc n) c) = [(quantizeToWebColors c, Suc n)]"
  using colorGroups_step [of c 1 n] by (simp add: colorGroups_def Let_def)

lemma topColors_replicate: "topColors (replicate (Suc n) c) = [quantizeToWebColors c]"
  unfolding topColors_def colorGroups_replicate by simp

lemma lightness_green: "getLightness ''#00FF00'' = 50"
  by (simp add: getLightness_def web_rgb Let_def)

lemma luminance_green: "getLuminance ''#00FF00'' = 0.7152"
  by (simp add: getLuminance_def web_rgb Let_def)

lemma luminance_white: "getLuminance ''#FFFFFF'' = 1"
  by (simp add: getLuminance_def web_rgb Let_def)

lemma contrast_green_white: "calculateContrastRatio ''#00FF00'' ''#FFFFFF'' = 1.05 / 0.7652"
  by (simp add: calculateContrastRatio_def luminance_green luminance_white Let_def)

lemma background_green: "findBestBackgroundColor [''#00FF00''] = ''#00FF00''"
  by (simp add: findBestBackgroundColor_def lightness_green Let_def)

lemma text_green: "findBestTextColor [''#00FF00''] ''#00FF00'' = ''#FFFFFF''"
  by (simp add: findBestTextColor_def lightness_green)

lemma dominant_flat_green:
  "background (calculateAdvancedDominantColors (replicate 4000 ''#00ff00'') u) = ''#00FF00'' \<and>
   textColor (calculateAdvancedDominantColors (replicate 4000 ''#00ff00'') u) = ''#FFFFFF''"
proof -
  have t: "topColors (replicate 4000 ''#00ff00'') = [''#00FF00'']"
    using topColors_replicate [of 3999 "''#00ff00''"] by (simp add: quantize_green)
  show ?thesis
    by (simp add: calculateAdvancedDominantColors_def t background_green text_green Let_def)
qed

section \<open>Palette: facts\<close>

lemma set_newSetLoop: "set (newSetLoop seen xs) = set seen \<union> set xs"
  by (induction xs arbitrary: seen) auto

lemma distinct_newSetLoop: "distinct seen \<Longrightarrow> distinct (newSetLoop seen xs)"
  by (induction xs arbitrary: seen) auto

lemma set_newSet: "set (newSet xs) = set xs"
  by (simp add: newSet_def set_newSetLoop)

lemma distinct_newSet: "distinct (newSet xs)"
  by (simp add: newSet_def distinct_newSetLoop)

lemma length_newSet: "length (newSet xs) = card (set xs)"
  using distinct_card [OF distinct_newSet [of xs]] by (simp add: set_newSet)

lemma createAdvancedPalette_props:
  "distinct (createAdvancedPalette fl cs)"
  "set (createAdvancedPalette fl cs) = set cs"
  "length (createAdvancedPalette fl cs) = card (set cs)"
  "sorted_wrt (\<lambda>a b. fl b \<le> fl a) (createAdvancedPalette fl cs)"
proof -
  show "distinct (createAdvancedPalette fl cs)"
    by (simp add: createAdvancedPalette_def distinct_newSet)
  show "set (createAdvancedPalette fl cs) = set cs"
    by (simp add: createAdvancedPalette_def set_newSet)
  show "length (createAdvancedPalette fl cs) = card (set cs)"
    by (simp add: createAdvancedPalette_def length_newSet)
  have "sorted (map (\<lambda>c. - fl c) (createAdvancedPalette fl cs))"
    by (simp add: createAdvancedPalette_def)
  then show "sorted_wrt (\<lambda>a b. fl b \<le> fl a) (createAdvancedPalette fl cs)"
    by (simp add: sorted_map)
qed

text \<open>
  The exact lightness of a colour is a multiple of \<open>100 / 510\<close>: the sum of the largest
  and the smallest channel, over 255, halved, times 100. Two different values are at
  least \<open>100 / 510\<close> apart, so a function within a thousandth of the exact lightness
  keeps every strict order.
\<close>

lemma getLightness_grid: "\<exists>k::nat. getLightness c = real k * (100 / 510)"
proof -
  obtain r g b where rgb: "hexToRgb c = [r, g, b]"
    using hexToRgb_length [of c]
    by (metis (no_types, opaque_lifting) length_0_conv length_Suc_conv numeral_3_eq_3)
  have mx: "max (max (real r / 255) (real g / 255)) (real b / 255) = real (max (max r g) b) / 255"
    by (simp add: max_def)
  have mn: "min (min (real r / 255) (real g / 255)) (real b / 255) = real (min (min r g) b) / 255"
    by (simp add: min_def)
  have "getLightness c = real (max (max r g) b + min (min r g) b) * (100 / 510)"
    unfolding getLightness_def Let_def rgb by (simp add: mx mn)
  then show ?thesis by blast
qed

lemma lightness_gap:
  assumes "getLightness a < getLightness b"
  shows "getLightness a + 100 / 510 \<le> getLightness b"
proof -
  obtain ka kb :: nat where k: "getLightness a = real ka * (100 / 510)"
    "getLightness b = real kb * (100 / 510)"
    using getLightness_grid [of a] getLightness_grid [of b] by blast
  with assms have "ka < kb" by simp
  then have "real ka + 1 \<le> real kb" by linarith
  then have "(real ka + 1) * (100 / 510) \<le> real kb * (100 / 510)"
    by (intro mult_right_mono) simp_all
  with k show ?thesis by (simp add: algebra_simps)
qed

lemma close_keeps_order:
  assumes "closeToLightness fl" "fl b \<le> fl a"
  shows "getLightness b \<le> getLightness a"
proof (rule ccontr)
  assume "\<not> getLightness b \<le> getLightness a"
  then have "getLightness a + 100 / 510 \<le> getLightness b"
    by (intro lightness_gap) simp
  moreover from assms(1) have "\<bar>fl a - getLightness a\<bar> < 1 / 1000" "\<bar>fl b - getLightness b\<bar> < 1 / 1000"
    unfolding closeToLightness_def by blast+
  ultimately have "fl a < fl b" by linarith
  with assms(2) show False by simp
qed

lemma closeToLightness_exact: "closeToLightness getLightness"
  by (simp add: closeToLightness_def)

text \<open>No colour that the cap cuts off comes before a kept one in the order of the sort.\<close>

lemma take_sorted_wrt_omitted:
  assumes "sorted_wrt P xs" "a \<in> set (take n xs)" "b \<in> set xs" "b \<notin> set (take n xs)"
  shows "P a b"
proof -
  from assms(3,4) have "b \<in> set (drop n xs)"
    by (metis Un_iff append_take_drop_id set_append)
  moreover from assms(1) have "sorted_wrt P (take n xs @ drop n xs)" by simp
  ultimately show ?thesis
    using assms(2) unfolding sorted_wrt_append by blast
qed

text \<open>
  C9, as the code has it. The exported palette is built from all the sampled colours, as
  sampled (raw hex strings, neither quantized nor cut to the ten most frequent): they are
  deduplicated, sorted by descending lightness as computed in double precision, and cut
  to the first twelve. Whatever the order of colours of equal lightness: the result
  has no duplicates, twelve entries or as many as there are distinct samples if these
  are fewer, descending lightness and only sampled colours; it holds every sampled colour
  when there are at most twelve distinct ones; and no sampled colour that it omits is
  lighter than one that it keeps.
\<close>

theorem palette_from_raw_samples:
  assumes "closeToLightness fl"
  shows "distinct (exportedPalette fl cs) \<and>
   length (exportedPalette fl cs) = min 12 (card (set cs)) \<and>
   sorted_wrt (\<lambda>a b. getLightness b \<le> getLightness a) (exportedPalette fl cs) \<and>
   set (exportedPalette fl cs) \<subseteq> set cs \<and>
   (card (set cs) \<le> 12 \<longrightarrow> set (exportedPalette fl cs) = set cs) \<and>
   (\<forall>a \<in> set (exportedPalette fl cs). \<forall>b \<in> set cs - set (exportedPalette fl cs).
      getLightness b \<le> getLightness a)"
proof -
  let ?xs = "createAdvancedPalette fl cs"
  have s: "sorted_wrt (\<lambda>a b. fl b \<le> fl a) ?xs"
    by (rule createAdvancedPalette_props(4))
  have "sorted_wrt (\<lambda>a b. fl b \<le> fl a) (exportedPalette fl cs)"
    unfolding exportedPalette_def using s by (rule sorted_wrt_take)
  then have 1: "sorted_wrt (\<lambda>a b. getLightness b \<le> getLightness a) (exportedPalette fl cs)"
    by (rule sorted_wrt_mono_rel [rotated]) (simp add: close_keeps_order [OF assms])
  have 2: "set (exportedPalette fl cs) \<subseteq> set cs"
    unfolding exportedPalette_def
    using set_take_subset [of 12 ?xs] by (simp add: createAdvancedPalette_props(2))
  have 3: "card (set cs) \<le> 12 \<longrightarrow> set (exportedPalette fl cs) = set cs"
    by (simp add: exportedPalette_def createAdvancedPalette_props)
  have 4: "getLightness b \<le> getLightness a"
    if "a \<in> set (exportedPalette fl cs)" "b \<in> set cs - set (exportedPalette fl cs)" for a b
  proof -
    from that have "a \<in> set (take 12 ?xs)" "b \<in> set ?xs" "b \<notin> set (take 12 ?xs)"
      by (simp_all add: exportedPalette_def createAdvancedPalette_props(2))
    with s have "fl b \<le> fl a" by (rule take_sorted_wrt_omitted)
    with assms show ?thesis by (rule close_keeps_order)
  qed
  have 5: "distinct (exportedPalette fl cs)"
    "length (exportedPalette fl cs) = min 12 (card (set cs))"
    by (simp_all add: exportedPalette_def createAdvancedPalette_props(1,3) min.commute)
  from 1 2 3 4 5 show ?thesis by blast
qed

lemma exportedPalette_single: "exportedPalette fl [c] = [c]"
  by (simp add: exportedPalette_def createAdvancedPalette_def newSet_def)

lemma specPalette_single: "specPalette [c] = [quantizeToWebColors c]"
  by (simp add: specPalette_def topColors_def colorGroups_def newSet_def Let_def)

text \<open>
  The palette is not the one built from the ten most frequent quantized colours: for the
  single sample \<open>#ff0101\<close> the exported palette is \<open>[#ff0101]\<close>, while the top
  quantized colour is \<open>#FF0000\<close>.
\<close>

theorem palette_not_from_top_colors:
  "exportedPalette getLightness [''#ff0101''] = [''#ff0101''] \<and>
   specPalette [''#ff0101''] = [''#FF0000''] \<and>
   exportedPalette getLightness [''#ff0101''] \<noteq> specPalette [''#ff0101'']"
  by (simp add: exportedPalette_single specPalette_single quantize_red1)

text \<open>
  Thirteen shades of gray, from black upward: the palette keeps the twelve lightest in
  descending order and omits black.
\<close>

lemma shades_rgb:
  "map hexToRgb [''#000000'', ''#010101'', ''#020202'', ''#030303'', ''#040404'', ''#050505'',
      ''#060606'', ''#070707'', ''#080808'', ''#090909'', ''#0a0a0a'', ''#0b0b0b'', ''#0c0c0c''] =
   [[0,0,0],[1,1,1],[2,2,2],[3,3,3],[4,4,4],[5,5,5],[6,6,6],[7,7,7],[8,8,8],[9,9,9],
    [10,10,10],[11,11,11],[12,12,12]]"
  by code_simp

lemmas shade_rgb = shades_rgb [unfolded list.map list.inject]

lemma shades_palette:
  "exportedPalette getLightness
     [''#000000'', ''#010101'', ''#020202'', ''#030303'', ''#040404'', ''#050505'',
      ''#060606'', ''#070707'', ''#080808'', ''#090909'', ''#0a0a0a'', ''#0b0b0b'', ''#0c0c0c''] =
   [''#0c0c0c'', ''#0b0b0b'', ''#0a0a0a'', ''#090909'', ''#080808'', ''#070707'',
    ''#060606'', ''#050505'', ''#040404'', ''#030303'', ''#020202'', ''#010101'']"
  by (simp add: exportedPalette_def createAdvancedPalette_def newSet_def getLightness_def
      shade_rgb Let_def)

theorem palette_from_raw_samples_witness:
  "closeToLightness getLightness \<and>
   ''#0c0c0c'' \<in> set (exportedPalette getLightness
     [''#000000'', ''#010101'', ''#020202'', ''#030303'', ''#040404'', ''#050505'',
      ''#060606'', ''#070707'', ''#080808'', ''#090909'', ''#0a0a0a'', ''#0b0b0b'', ''#0c0c0c'']) \<and>
   ''#000000'' \<notin> set (exportedPalette getLightness
     [''#000000'', ''#010101'', ''#020202'', ''#030303'', ''#040404'', ''#050505'',
      ''#060606'', ''#070707'', ''#080808'', ''#090909'', ''#0a0a0a'', ''#0b0b0b'', ''#0c0c0c'']) \<and>
   getLightness ''#000000'' \<le> getLightness ''#0c0c0c'' \<and>
   set (exportedPalette getLightness [''#ff0101'', ''#00ff00'']) = {''#ff0101'', ''#00ff00''}"
proof -
  let ?cs = "[''#000000'', ''#010101'', ''#020202'', ''#030303'', ''#040404'', ''#050505'',
      ''#060606'', ''#070707'', ''#080808'', ''#090909'', ''#0a0a0a'', ''#0b0b0b'', ''#0c0c0c'']"
  have m: "''#0c0c0c'' \<in> set (exportedPalette getLightness ?cs)"
    "''#000000'' \<in> set ?cs - set (exportedPalette getLightness ?cs)"
    unfolding shades_palette by simp_all
  from palette_from_raw_samples [OF closeToLightness_exact, of ?cs]
  have "\<forall>a \<in> set (exportedPalette getLightness ?cs).
          \<forall>b \<in> set ?cs - set (exportedPalette getLightness ?cs). getLightness b \<le> getLightness a"
    by (elim conjE)
  with m have 1: "getLightness ''#000000'' \<le> getLightness ''#0c0c0c''" by blast
  have c: "card (set [''#ff0101'', ''#00ff00'']) \<le> 12" by simp
  from palette_from_raw_samples [OF closeToLightness_exact, of "[''#ff0101'', ''#00ff00'']"]
  have "card (set [''#ff0101'', ''#00ff00'']) \<le> 12 \<longrightarrow>
        set (exportedPalette getLightness [''#ff0101'', ''#00ff00'']) = set [''#ff0101'', ''#00ff00'']"
    by (elim conjE)
  with c have 2: "set (exportedPalette getLightness [''#ff0101'', ''#00ff00'']) = {''#ff0101'', ''#00ff00''}"
    by simp
  from m 1 2 closeToLightness_exact show ?thesis by simp
qed

section \<open>Balance and symmetry: facts\<close>

lemma balance_equal: "w \<noteq> 0 \<Longrightarrow> calculateBalance [w, w, w, w] = 100"
  by (simp add: calculateBalance_def Let_def)

lemma symmetry_equal: "w \<noteq> 0 \<Longrightarrow> calculateSymmetry [w, w, w, w] = Some 100"
  by (simp add: calculateSymmetry_def jsDivide_def Let_def)

lemma round_range: "0 \<le> x \<Longrightarrow> x \<le> 100 \<Longrightarrow> 0 \<le> round (x::real) \<and> round x \<le> 100"
  unfolding round_def by linarith

lemma ratio_le_1:
  assumes "0 < t" "\<bar>n\<bar> \<le> (t::real)"
  shows "\<bar>n / t\<bar> \<le> 1"
  using assms by simp

lemma calculateBalance_range:
  assumes "0 \<le> a" "0 \<le> b" "0 \<le> c" "0 \<le> d"
  shows "0 \<le> calculateBalance [a, b, c, d] \<and> calculateBalance [a, b, c, d] \<le> 100"
proof (cases "a + b + c + d = 0")
  case True
  then show ?thesis by (simp add: calculateBalance_def)
next
  case False
  let ?t = "a + b + c + d"
  define p where "p = \<bar>(a + c - (b + d)) / ?t\<bar>"
  define q where "q = \<bar>(a + b - (c + d)) / ?t\<bar>"
  from False assms have t: "0 < ?t" by simp
  have "\<bar>a + c - (b + d)\<bar> \<le> ?t" "\<bar>a + b - (c + d)\<bar> \<le> ?t"
    using assms by linarith+
  then have p: "0 \<le> p" "p \<le> 1" and q: "0 \<le> q" "q \<le> 1"
    unfolding p_def q_def using t by (simp_all only: ratio_le_1 abs_ge_zero)
  have "0 \<le> ((100 - p * 100) + (100 - q * 100)) / 2"
    using p q by simp
  moreover have "((100 - p * 100) + (100 - q * 100)) / 2 \<le> 100"
    using p q by simp
  ultimately have "0 \<le> round (((100 - p * 100) + (100 - q * 100)) / 2) \<and>
             round (((100 - p * 100) + (100 - q * 100)) / 2) \<le> 100"
    by (rule round_range)
  with False show ?thesis
    by (simp add: calculateBalance_def Let_def p_def q_def)
qed

section \<open>Score aggregation and the entry point: facts\<close>

lemma weighted_range:
  fixes t c l v s e :: real
  assumes "0 \<le> t" "t \<le> 100" "0 \<le> c" "c \<le> 100" "0 \<le> l" "l \<le> 100"
    "0 \<le> v" "v \<le> 100" "0 \<le> s" "s \<le> 100" "\<bar>e\<bar> \<le> 1 / 1000"
  shows "0 \<le> round (t * 0.2 + c * 0.25 + l * 0.3 + v * 0.15 + s * 0.1 + e) \<and>
         round (t * 0.2 + c * 0.25 + l * 0.3 + v * 0.15 + s * 0.1 + e) \<le> 100"
proof -
  have lo: "0 \<le> t * 0.2 + c * 0.25 + l * 0.3 + v * 0.15 + s * 0.1"
    using assms by simp
  have "t * 0.2 \<le> 20" "c * 0.25 \<le> 25" "l * 0.3 \<le> 30" "v * 0.15 \<le> 15" "s * 0.1 \<le> 10"
    using assms by simp_all
  then have hi: "t * 0.2 + c * 0.25 + l * 0.3 + v * 0.15 + s * 0.1 \<le> 100"
    by linarith
  from assms(11) have "- (1 / 1000) \<le> e" "e \<le> 1 / 1000" by linarith+
  with lo hi show ?thesis
    unfolding round_def by linarith
qed

lemma average_range:
  fixes t c l v s :: real
  assumes "0 \<le> t" "t \<le> 100" "0 \<le> c" "c \<le> 100" "0 \<le> l" "l \<le> 100"
    "0 \<le> v" "v \<le> 100" "0 \<le> s" "s \<le> 100"
  shows "0 \<le> round ((t + c + l + v + s) / 5) \<and> round ((t + c + l + v + s) / 5) \<le> 100"
proof (rule round_range)
  show "0 \<le> (t + c + l + v + s) / 5"
    using assms by simp
  have "t + c + l + v + s \<le> 500"
    using assms by linarith
  then show "(t + c + l + v + s) / 5 \<le> 100"
    by simp
qed

lemma harmonyPairs_nonneg: "0 \<le> harmonyPairs ps"
proof (induction ps)
  case Nil
  then show ?case by simp
next
  case (Cons p ps)
  have "0 \<le> sum_list (map (\<lambda>q. let contrast = calculateColorContrast p q
                         in if contrast > 2 \<and> contrast < 8 then 5 else (0::real)) ps)"
    by (rule sum_list_nonneg) (auto simp: Let_def)
  with Cons show ?case by simp
qed

lemma calculateColorScore_range:
  "0 \<le> calculateColorScore palette \<and> calculateColorScore palette \<le> 100"
proof (cases "length palette < 3")
  case True
  then show ?thesis by (simp add: calculateColorScore_def)
next
  case False
  define x where "x = 50 + min (real (length palette) * 5) 30 + calculateColorHarmony palette"
  have "0 \<le> min (real (length palette) * 5) 30" by simp
  moreover have "0 \<le> calculateColorHarmony palette"
    using harmonyPairs_nonneg [of palette] by (simp add: calculateColorHarmony_def)
  ultimately have "0 \<le> x" unfolding x_def by linarith
  then have "0 \<le> min 100 x \<and> min 100 x \<le> 100" by simp
  with False show ?thesis
    by (simp add: calculateColorScore_def x_def)
qed

text \<open>
  With finite numbers in the layout analysis, the overall score is the weighted sum of
  the five sub-scores, rounded; \<open>e\<close> is the rounding error of the doubles.
\<close>

lemma calculateScores_finite:
  "calculateScores ta palette
     \<lparr>balance = Some b, symmetry = Some sy, gridQuality = Some g, visualWeight = Some v\<rparr> e =
   \<lparr>textReadability = Some (min 100 (real (wordCount ta) * 2 + (if hasHeadings ta then 30 else 10))),
    colorScore = Some (calculateColorScore palette),
    layoutScore = Some ((b + sy + g) / 3),
    visualHierarchy = Some v,
    spacingScore = Some g,
    overall = Some (real_of_int (round
      (min 100 (real (wordCount ta) * 2 + (if hasHeadings ta then 30 else 10)) * 0.2
       + calculateColorScore palette * 0.25 + (b + sy + g) / 3 * 0.3 + v * 0.15 + g * 0.1 + e)))\<rparr>"
  by (simp add: calculateScores_def Let_def)

lemma calculateScores_finite_range:
  assumes "0 \<le> b" "b \<le> 100" "0 \<le> sy" "sy \<le> 100" "0 \<le> g" "g \<le> 100" "0 \<le> v" "v \<le> 100"
    and "\<bar>e\<bar> \<le> 1 / 1000"
  shows "\<exists>ov. overall (calculateScores ta palette
       \<lparr>balance = Some b, symmetry = Some sy, gridQuality = Some g, visualWeight = Some v\<rparr> e) = Some ov
     \<and> 0 \<le> ov \<and> ov \<le> 100"
proof -
  let ?tr = "min 100 (real (wordCount ta) * 2 + (if hasHeadings ta then 30 else 10))"
  have tr: "0 \<le> ?tr" "?tr \<le> 100" by simp_all
  have ls: "0 \<le> (b + sy + g) / 3" "(b + sy + g) / 3 \<le> 100"
    using assms by simp_all
  from weighted_range [OF tr _ _ ls assms(7,8,5,6,9), of "calculateColorScore palette"]
    calculateColorScore_range [of palette]
  show ?thesis
    by (simp add: calculateScores_finite)
qed

text \<open>A symmetry that is not a number makes the layout score and the overall score so.\<close>

lemma calculateScores_NaN:
  assumes "symmetry la = None"
  shows "layoutScore (calculateScores ta palette la e) = None"
    and "overall (calculateScores ta palette la e) = None"
  using assms by (simp_all add: calculateScores_def Let_def split: option.splits)

lemma analyzeDesign_None: "analyzeDesign fl None d fb = Inr getFallbackResult"
  by (simp add: analyzeDesign_def analyzeDesignBody_def loadImage_def)

lemma analyzeDesign_Some:
  "\<exists>a. analyzeDesign fl (Some img) d fb =
      Inr \<lparr>success = True,
           feedback = \<lparr>overallScore = real_of_int (round ((textReadability a + colorScore a
                          + layoutScore a + visualHierarchy a + spacingScore a) / 5)),
                       improvementSuggestions = fst fb, strengths = snd fb, analysis = a\<rparr>,
           resultAnalysis = Some a\<rparr> \<and>
      visualHierarchy a = analyzeVisualHierarchy (hierarchyDraw d) \<and>
      spacingScore a = analyzeSpacing (spacingDraw d)"
  by (simp add: analyzeDesign_def analyzeDesignBody_def loadImage_def Let_def split: prod.splits)

lemma analyzeDesign_overall:
  assumes "analyzeDesign fl f d fb = Inr r"
  shows "overallScore (feedback r) =
     real_of_int (round ((textReadability (analysis (feedback r)) + colorScore (analysis (feedback r))
        + layoutScore (analysis (feedback r)) + visualHierarchy (analysis (feedback r))
        + spacingScore (analysis (feedback r))) / 5))"
proof (cases "f")
  case None
  with assms show ?thesis
    by (auto simp: analyzeDesign_None getFallbackResult_def getDefaultAnalysis_def)
next
  case (Some img)
  with assms analyzeDesign_Some [of fl img d fb] show ?thesis by auto
qed

section \<open>The sampler on an image of one colour\<close>

lemma flat_pixels_length: "length (concat (replicate n [r, g, b, a])) = 4 * n"
  by (induction n) simp_all

lemma concat_replicate_nth:
  "k < n \<Longrightarrow> j < length xs \<Longrightarrow> concat (replicate n xs) ! (length xs * k + j) = xs ! j"
proof (induction n arbitrary: k)
  case 0
  then show ?case by simp
next
  case (Suc n)
  show ?case
  proof (cases k)
    case 0
    with Suc.prems show ?thesis by (simp add: nth_append)
  next
    case (Suc k')
    with Suc.prems have "k' < n" by simp
    from Suc.IH [OF this Suc.prems(2)] Suc show ?thesis
      by (simp add: nth_append add.assoc)
  qed
qed

lemma flat_pixels_nth:
  "k < n \<Longrightarrow> j < 4 \<Longrightarrow> concat (replicate n [r, g, b, a]) ! (4 * k + j) = [r, g, b, a] ! j"
proof -
  assume a: "k < n" "j < 4"
  have l: "length [r, g, b, a] = 4" by simp
  from a have "concat (replicate n [r, g, b, a]) ! (length [r, g, b, a] * k + j) = [r, g, b, a] ! j"
    by (intro concat_replicate_nth) simp_all
  then show ?thesis by (simp only: l)
qed

lemma byteAt_flat:
  assumes "k < n" "j < 4"
  shows "byteAt (concat (replicate n [r, g, b, a])) (int k * 4 + int j) = Some ([r, g, b, a] ! j)"
proof -
  have e: "nat (int k * 4 + int j) = 4 * k + j" by simp
  have "4 * k + j < 4 * n" using assms by simp
  then show ?thesis
    unfolding byteAt_def e using flat_pixels_nth [OF assms]
    by (simp add: flat_pixels_length)
qed

lemma pixel_index:
  assumes "0 \<le> x" "x < int wd" "0 \<le> y" "y < int ht"
  shows "nat (y * int wd + x) < wd * ht" and "y * int wd + x = int (nat (y * int wd + x))"
proof -
  from assms have "y * int wd + x < (y + 1) * int wd"
    by (simp add: algebra_simps)
  also from assms have "\<dots> \<le> int ht * int wd"
    by (intro mult_right_mono) simp_all
  finally have "y * int wd + x < int (wd * ht)" by (simp add: mult.commute)
  moreover from assms have nn: "0 \<le> y * int wd + x" by simp
  ultimately show "nat (y * int wd + x) < wd * ht" by linarith
  from nn show "y * int wd + x = int (nat (y * int wd + x))" by simp
qed

lemma sampleOnce_flat:
  assumes "0 \<le> \<lfloor>rx + ux * rw\<rfloor>" "\<lfloor>rx + ux * rw\<rfloor> < int wd"
    "0 \<le> \<lfloor>ry + uy * rh\<rfloor>" "\<lfloor>ry + uy * rh\<rfloor> < int ht"
  shows "sampleOnce (concat (replicate (wd * ht) [r, g, b, a])) wd ht (rx, ry, rw, rh) (ux, uy) =
         (if a > 128 \<and> \<not> isGray r g b then [rgbToHex r g b] else [])"
proof -
  let ?x = "\<lfloor>rx + ux * rw\<rfloor>" and ?y = "\<lfloor>ry + uy * rh\<rfloor>"
  let ?dat = "concat (replicate (wd * ht) [r, g, b, a])"
  define k where "k = nat (?y * int wd + ?x)"
  from pixel_index [OF assms] have k: "k < wd * ht" and i: "?y * int wd + ?x = int k"
    unfolding k_def by simp_all
  have b: "byteAt ?dat (int k * 4) = Some r"
    "byteAt ?dat (int k * 4 + 1) = Some g"
    "byteAt ?dat (int k * 4 + 2) = Some b"
    "byteAt ?dat (int k * 4 + 3) = Some a"
    using byteAt_flat [OF k, of 0 r g b a] byteAt_flat [OF k, of 1 r g b a]
      byteAt_flat [OF k, of 2 r g b a] byteAt_flat [OF k, of 3 r g b a]
    by simp_all
  have "sampleOnce ?dat wd ht (rx, ry, rw, rh) (ux, uy) =
      (case (byteAt ?dat ((?y * int wd + ?x) * 4), byteAt ?dat ((?y * int wd + ?x) * 4 + 1),
             byteAt ?dat ((?y * int wd + ?x) * 4 + 2), byteAt ?dat ((?y * int wd + ?x) * 4 + 3)) of
         (Some r, Some g, Some b, Some a) \<Rightarrow>
            if a > 128 \<and> \<not> isGray r g b then [rgbToHex r g b] else []
       | _ \<Rightarrow> [])"
    using assms(2,4) by (simp add: sampleOnce_def Let_def)
  also have "\<dots> = (if a > 128 \<and> \<not> isGray r g b then [rgbToHex r g b] else [])"
    unfolding i by (simp only: b) simp
  finally show ?thesis .
qed

lemma floor_in_range:
  fixes rx rw u :: real
  assumes "0 \<le> rx" "0 < rw" "rx + rw \<le> real wd" "0 \<le> u" "u < 1"
  shows "0 \<le> \<lfloor>rx + u * rw\<rfloor> \<and> \<lfloor>rx + u * rw\<rfloor> < int wd"
proof -
  from assms have "0 \<le> rx + u * rw" by simp
  moreover from assms have "u * rw < rw" by simp
  with assms have "rx + u * rw < real wd" by linarith
  ultimately show ?thesis by (simp add: floor_less_iff)
qed

lemma regions_inside:
  assumes "0 < wd" "0 < ht" "k < 5" "regions wd ht ! k = (rx, ry, rw, rh)"
  shows "0 \<le> rx \<and> 0 < rw \<and> rx + rw \<le> real wd \<and> 0 \<le> ry \<and> 0 < rh \<and> ry + rh \<le> real ht"
proof -
  from assms(3) have "k = 0 \<or> k = 1 \<or> k = 2 \<or> k = 3 \<or> k = 4" by linarith
  then show ?thesis
    using assms(1,2,4) by (elim disjE) (simp_all add: regions_def)
qed

lemma concat_map_singletons:
  "(\<And>i. i < n \<Longrightarrow> f i = [c]) \<Longrightarrow> concat (map f [0 ..< n]) = replicate n c"
  by (induction n) (simp_all add: replicate_append_same)

lemma concat_map_replicates:
  "(\<And>k. k < m \<Longrightarrow> g k = replicate n c) \<Longrightarrow> concat (map g [0 ..< m]) = replicate (m * n) c"
  by (induction m) (simp_all add: replicate_add [symmetric] add.commute)

lemma regions_length: "length (regions wd ht) = 5"
  by (simp add: regions_def)

lemma sampleOnce_flat_region:
  assumes "0 < wd" "0 < ht" "k < 5" "unitDraws draws" "128 < a" "\<not> isGray r g b"
  shows "sampleOnce (concat (replicate (wd * ht) [r, g, b, a])) wd ht (regions wd ht ! k) (draws k i)
         = [rgbToHex r g b]"
proof -
  obtain rx ry rw rh where reg: "regions wd ht ! k = (rx, ry, rw, rh)"
    by (cases "regions wd ht ! k") auto
  obtain ux uy where u: "draws k i = (ux, uy)"
    by (cases "draws k i") auto
  from assms(4) u have ur: "0 \<le> ux" "ux < 1" "0 \<le> uy" "uy < 1"
    unfolding unitDraws_def by (metis fst_conv snd_conv)+
  from regions_inside [OF assms(1,2,3) reg]
  have g: "0 \<le> rx" "0 < rw" "rx + rw \<le> real wd" "0 \<le> ry" "0 < rh" "ry + rh \<le> real ht"
    by simp_all
  from floor_in_range [OF g(1,2,3) ur(1,2)] floor_in_range [OF g(4,5,6) ur(3,4)]
  have "0 \<le> \<lfloor>rx + ux * rw\<rfloor>" "\<lfloor>rx + ux * rw\<rfloor> < int wd"
    "0 \<le> \<lfloor>ry + uy * rh\<rfloor>" "\<lfloor>ry + uy * rh\<rfloor> < int ht"
    by simp_all
  from sampleOnce_flat [OF this, of r g b a] assms(5,6) show ?thesis
    by (simp add: reg u)
qed

lemma sampleStrategicRegions_flat:
  assumes "0 < wd" "0 < ht" "unitDraws draws" "128 < a" "\<not> isGray r g b"
  shows "sampleStrategicRegions (concat (replicate (wd * ht) [r, g, b, a])) wd ht draws
         = replicate 4000 (rgbToHex r g b)"
proof -
  let ?dat = "concat (replicate (wd * ht) [r, g, b, a])"
  have inner: "concat (map (\<lambda>i. sampleOnce ?dat wd ht (regions wd ht ! k) (draws k i)) [0 ..< 800])
      = replicate 800 (rgbToHex r g b)" if "k < 5" for k
    by (rule concat_map_singletons) (rule sampleOnce_flat_region [OF assms(1,2) that assms(3,4,5)])
  have "concat (map (\<lambda>k. concat (map (\<lambda>i. sampleOnce ?dat wd ht (regions wd ht ! k) (draws k i))
                                 [0 ..< 800])) [0 ..< 5])
      = replicate (5 * 800) (rgbToHex r g b)"
    by (rule concat_map_replicates) (rule inner)
  then show ?thesis
    by (simp add: sampleStrategicRegions_def regions_length)
qed

lemma rgbToHex_green: "rgbToHex 0 255 0 = ''#00ff00''"
  by code_simp

lemma not_gray_green: "\<not> isGray 0 255 0"
  by (simp add: isGray_def)

lemma sample_flat_green:
  assumes "0 < wd" "0 < ht" "unitDraws draws"
  shows "sampleStrategicRegions (pixels (flatImage wd ht 0 255 0 255)) wd ht draws
         = replicate 4000 ''#00ff00''"
  using sampleStrategicRegions_flat [OF assms, of 255 0 255 0] not_gray_green
  by (simp add: flatImage_def rgbToHex_green)

lemma unitDraws_zero: "unitDraws (samplerDraws zeroDraws)"
  by (simp add: unitDraws_def zeroDraws_def)

section \<open>The analysis of a flat green image\<close>

lemma extract_flat_green:
  assumes "0 < wd" "0 < ht" "unitDraws (samplerDraws d)"
  shows "extractRealColorsAdvanced fl (flatImage wd ht 0 255 0 255) d =
     (calculateAdvancedDominantColors (replicate 4000 ''#00ff00'') (vibrantDraw d),
      take 12 (createAdvancedPalette fl (replicate 4000 ''#00ff00'')),
      1.05 / 0.7652)"
proof -
  have s: "sampleStrategicRegions (pixels (flatImage wd ht 0 255 0 255))
             (width (flatImage wd ht 0 255 0 255)) (height (flatImage wd ht 0 255 0 255))
             (samplerDraws d) = replicate 4000 ''#00ff00''"
    using sample_flat_green [OF assms] by (simp add: flatImage_def)
  show ?thesis
    unfolding extractRealColorsAdvanced_def s
    by (simp add: Let_def dominant_flat_green contrast_green_white)
qed

text \<open>
  C1. The claim: the background and text colours are distinct and, after the fallback to
  black or white, their contrast ratio is at least 3. On a flat pure-green image of any
  positive size, whatever the sampler draws, the assigner chooses background \<open>#00FF00\<close>,
  whose lightness is exactly 50 and so not above 50, hence the fallback text \<open>#FFFFFF\<close>;
  the contrast ratio of the two is \<open>1.05 / 0.7652\<close>, below 3.
\<close>

theorem flat_green_contrast_below_floor:
  assumes "0 < wd" "0 < ht" "unitDraws (samplerDraws d)"
  shows "case extractRealColorsAdvanced fl (flatImage wd ht 0 255 0 255) d of
           (dc, palette, contrast) \<Rightarrow>
             background dc = ''#00FF00'' \<and> textColor dc = ''#FFFFFF'' \<and>
             contrast = calculateContrastRatio (background dc) (textColor dc) \<and> contrast < 3"
  by (simp add: extract_flat_green [OF assms] dominant_flat_green contrast_green_white)

theorem flat_green_contrast_below_floor_witness:
  "calculateContrastRatio
     (background (fst (extractRealColorsAdvanced getLightness (flatImage 100 100 0 255 0 255) zeroDraws)))
     (textColor (fst (extractRealColorsAdvanced getLightness (flatImage 100 100 0 255 0 255) zeroDraws))) < 3"
  using flat_green_contrast_below_floor [of 100 100 zeroDraws getLightness] unitDraws_zero
  by (auto split: prod.splits)

lemma newSetLoop_replicate: "newSetLoop [c] (replicate n c) = [c]"
  by (induction n) simp_all

lemma palette_replicate: "take 12 (createAdvancedPalette fl (replicate (Suc n) c)) = [c]"
  by (simp add: createAdvancedPalette_def newSet_def newSetLoop_replicate)

lemma palette_flat_green: "take 12 (createAdvancedPalette fl (replicate 4000 ''#00ff00'')) = [''#00ff00'']"
  using palette_replicate [of fl 3999 "''#00ff00''"] by simp

lemma readability_green: "calculateReadabilityScore (1.05 / 0.7652) = 40"
proof -
  have "\<lfloor>(1.05 / 0.7652 :: real) * 8 + 30\<rfloor> = 40"
    by (rule floor_unique) simp_all
  then show ?thesis by (simp add: calculateReadabilityScore_def)
qed

lemma colorScore_flat_green:
  "background dc = ''#00FF00'' \<Longrightarrow> textColor dc = ''#FFFFFF'' \<Longrightarrow>
   calculateAdvancedColorScore [''#00ff00''] dc = 72"
  by (simp add: calculateAdvancedColorScore_def contrast_green_white Let_def)

lemma layout_square: "analyzeLayout (flatImage 100 100 r g b a) = 75"
  by (simp add: analyzeLayout_def flatImage_def Let_def)

lemma analyzeDesign_flat_green:
  "\<exists>a. analyzeDesign fl (Some (flatImage 100 100 0 255 0 255)) zeroDraws fb =
      Inr \<lparr>success = True,
           feedback = \<lparr>overallScore = 64, improvementSuggestions = fst fb, strengths = snd fb,
                       analysis = a\<rparr>,
           resultAnalysis = Some a\<rparr> \<and>
      textReadability a = 40 \<and> colorScore a = 72 \<and> layoutScore a = 75 \<and>
      visualHierarchy a = 65 \<and> spacingScore a = 70 \<and>
      background (dominant a) = ''#00FF00'' \<and> textColor (dominant a) = ''#FFFFFF'' \<and>
      colorPalette a = [''#00ff00''] \<and> contrastRatio a = 1.05 / 0.7652"
proof -
  have e: "extractRealColorsAdvanced fl (flatImage 100 100 0 255 0 255) zeroDraws =
     (calculateAdvancedDominantColors (replicate 4000 ''#00ff00'') (vibrantDraw zeroDraws),
      [''#00ff00''], 1.05 / 0.7652)"
    using extract_flat_green [of 100 100 zeroDraws fl] unitDraws_zero
    by (simp add: palette_flat_green)
  have z: "hierarchyDraw zeroDraws = 0" "spacingDraw zeroDraws = 0"
    by (simp_all add: zeroDraws_def)
  have r: "round (322 / 5 :: real) = 64"
    by (simp add: round_def)
  have rg: "calculateReadabilityScore (2625 / 1913) = 40"
    using readability_green by simp
  show ?thesis
    unfolding analyzeDesign_def analyzeDesignBody_def loadImage_def
    by (simp add: e Let_def rg colorScore_flat_green dominant_flat_green
        layout_square analyzeVisualHierarchy_def analyzeSpacing_def z r)
qed

section \<open>The claims about layout, scores, determinism and errors\<close>

lemma symmetry_None_iff:
  assumes "0 \<le> a" "0 \<le> b" "0 \<le> c" "0 \<le> d"
  shows "calculateSymmetry [a, b, c, d] = None \<longleftrightarrow> a = 0 \<and> (b = 0 \<or> c = 0 \<or> d = 0)"
  using assms
  by (auto simp: calculateSymmetry_def jsDivide_def Let_def max_def split: option.splits if_splits)

lemma sampler_cong:
  assumes "\<forall>k<5. \<forall>i<800. d1 k i = d2 k i"
  shows "sampleStrategicRegions dat wd ht d1 = sampleStrategicRegions dat wd ht d2"
proof -
  have inner: "map (\<lambda>i. sampleOnce dat wd ht (regions wd ht ! k) (d1 k i)) [0 ..< 800] =
        map (\<lambda>i. sampleOnce dat wd ht (regions wd ht ! k) (d2 k i)) [0 ..< 800]"
    if "k < 5" for k
    using assms that by (intro map_cong) simp_all
  have "map (\<lambda>k. concat (map (\<lambda>i. sampleOnce dat wd ht (regions wd ht ! k) (d1 k i)) [0 ..< 800]))
          [0 ..< 5] =
        map (\<lambda>k. concat (map (\<lambda>i. sampleOnce dat wd ht (regions wd ht ! k) (d2 k i)) [0 ..< 800]))
          [0 ..< 5]"
    by (rule map_cong) (simp_all add: inner)
  then show ?thesis
    unfolding sampleStrategicRegions_def regions_length by (rule arg_cong)
qed

text \<open>
  C3, as the code has it. The analysis takes no seed: the sampler, \<open>generateVibrantColor\<close>,
  \<open>analyzeVisualHierarchy\<close> and \<open>analyzeSpacing\<close> call \<open>Math.random()\<close>. Two runs over
  the same image give the same result when these calls return the same values in both:
  the 800 pairs of draws in each of the five regions, and the three other draws.
\<close>

theorem analysis_determined_by_draws:
  assumes "\<forall>k<5. \<forall>i<800. samplerDraws d1 k i = samplerDraws d2 k i"
    and "vibrantDraw d1 = vibrantDraw d2"
    and "hierarchyDraw d1 = hierarchyDraw d2"
    and "spacingDraw d1 = spacingDraw d2"
  shows "analyzeDesign fl f d1 fb = analyzeDesign fl f d2 fb"
proof -
  have "extractRealColorsAdvanced fl img d1 = extractRealColorsAdvanced fl img d2" for img
    unfolding extractRealColorsAdvanced_def
    using sampler_cong [OF assms(1)] assms(2) by simp
  then have "analyzeDesignBody fl f d1 fb = analyzeDesignBody fl f d2 fb"
    unfolding analyzeDesignBody_def using assms(3,4)
    by (cases "f") (simp_all add: loadImage_def)
  then show ?thesis
    unfolding analyzeDesign_def by simp
qed

theorem analysis_determined_by_draws_witness:
  "analyzeDesign getLightness (Some (flatImage 100 100 0 255 0 255)) zeroDraws ([], []) =
   analyzeDesign getLightness (Some (flatImage 100 100 0 255 0 255))
     (zeroDraws\<lparr>samplerDraws := (\<lambda>k i. if k < 5 \<and> i < 800 then (0, 0) else (1 / 2, 1 / 2))\<rparr>) ([], [])"
  by (rule analysis_determined_by_draws) (simp_all add: zeroDraws_def)

lemma analyzeDesign_hierarchy:
  "\<exists>r. analyzeDesign fl (Some img) d fb = Inr r \<and>
       visualHierarchy (analysis (feedback r)) = analyzeVisualHierarchy (hierarchyDraw d)"
  by (simp add: analyzeDesign_def analyzeDesignBody_def loadImage_def Let_def split: prod.splits)

text \<open>
  The sampler is not the only source of randomness: two runs over the same flat green
  image with the same sampler draws, whose draw in \<open>analyzeVisualHierarchy\<close> is 0 in one
  and 1/2 in the other, return different results (visual hierarchy 65 and 80).
\<close>

theorem same_image_different_metrics:
  "samplerDraws (zeroDraws\<lparr>hierarchyDraw := 1 / 2\<rparr>) = samplerDraws zeroDraws \<and>
   analyzeDesign getLightness (Some (flatImage 100 100 0 255 0 255)) zeroDraws ([], []) \<noteq>
   analyzeDesign getLightness (Some (flatImage 100 100 0 255 0 255))
     (zeroDraws\<lparr>hierarchyDraw := 1 / 2\<rparr>) ([], [])"
proof -
  let ?img = "flatImage 100 100 0 255 0 255"
  let ?d2 = "zeroDraws\<lparr>hierarchyDraw := 1 / 2\<rparr>"
  from analyzeDesign_hierarchy [of getLightness ?img zeroDraws "([], [])"]
  obtain r1 where r1: "analyzeDesign getLightness (Some ?img) zeroDraws ([], []) = Inr r1"
    "visualHierarchy (analysis (feedback r1)) = analyzeVisualHierarchy (hierarchyDraw zeroDraws)"
    by (elim exE conjE)
  from analyzeDesign_hierarchy [of getLightness ?img ?d2 "([], [])"]
  obtain r2 where r2: "analyzeDesign getLightness (Some ?img) ?d2 ([], []) = Inr r2"
    "visualHierarchy (analysis (feedback r2)) = analyzeVisualHierarchy (hierarchyDraw ?d2)"
    by (elim exE conjE)
  have "visualHierarchy (analysis (feedback r1)) = 65" "visualHierarchy (analysis (feedback r2)) = 80"
    using r1(2) r2(2) by (simp_all add: analyzeVisualHierarchy_def zeroDraws_def)
  then have "r1 \<noteq> r2" by auto
  then show ?thesis
    unfolding r1(1) r2(1) by simp
qed

text \<open>
  C4, as the code has it. The entry point always returns a result and never raises. When
  the image does not decode, the \<open>catch\<close> clause returns the fallback result. For a
  decoded image of positive size the result has \<open>success = true\<close> and a populated
  analysis, which is also its top-level \<open>analysis\<close> field, with the palette of the
  sampled colours.
\<close>

theorem analyzeDesign_always_returns:
  "\<exists>r. analyzeDesign fl f d fb = Inr r \<and>
       (f = None \<longrightarrow> r = getFallbackResult) \<and>
       (\<forall>img. f = Some img \<and> 0 < width img \<and> 0 < height img \<longrightarrow>
          success r \<and> resultAnalysis r = Some (analysis (feedback r)) \<and>
          colorPalette (analysis (feedback r)) =
            exportedPalette fl
              (sampleStrategicRegions (pixels img) (width img) (height img) (samplerDraws d)))"
proof (cases "f")
  case None
  then show ?thesis by (simp add: analyzeDesign_None)
next
  case (Some img)
  then show ?thesis
    by (simp add: analyzeDesign_def analyzeDesignBody_def loadImage_def Let_def
        extractRealColorsAdvanced_def exportedPalette_def)
qed

theorem analyzeDesign_always_returns_witness:
  "analyzeDesign getLightness None zeroDraws ([], []) = Inr getFallbackResult \<and>
   (\<exists>r. analyzeDesign getLightness (Some (flatImage 100 100 0 255 0 255)) zeroDraws ([], []) = Inr r
        \<and> success r)"
proof -
  from analyzeDesign_always_returns [of getLightness None zeroDraws "([], [])"]
  have 1: "analyzeDesign getLightness None zeroDraws ([], []) = Inr getFallbackResult" by auto
  have p: "0 < width (flatImage 100 100 0 255 0 255) \<and> 0 < height (flatImage 100 100 0 255 0 255)"
    by (simp add: flatImage_def)
  from analyzeDesign_always_returns
    [of getLightness "Some (flatImage 100 100 0 255 0 255)" zeroDraws "([], [])"] p
  have "\<exists>r. analyzeDesign getLightness (Some (flatImage 100 100 0 255 0 255)) zeroDraws ([], []) = Inr r
          \<and> success r"
    by auto
  with 1 show ?thesis by simp
qed

text \<open>
  No \<open>IngestionError\<close> reaches the caller: for an unreadable image the call returns the
  fallback result, with \<open>success = false\<close>, overall score 0 and no top-level analysis.
\<close>

theorem decode_failure_returns_fallback:
  "analyzeDesign getLightness None zeroDraws ([], []) = Inr getFallbackResult \<and>
   analyzeDesign getLightness None zeroDraws ([], []) \<noteq> Inl IngestionError \<and>
   success getFallbackResult = False \<and>
   overallScore (feedback getFallbackResult) = 0 \<and>
   resultAnalysis getFallbackResult = None"
  by (simp add: analyzeDesign_None getFallbackResult_def)

section \<open>Quadrant weights of a flat black image\<close>

lemma addPixelWeight_black:
  assumes "x < wd" "y < ht"
  shows "addPixelWeight (concat (replicate (wd * ht) [0, 0, 0, a])) wd ht y quarters x = quarters"
proof -
  let ?dat = "concat (replicate (wd * ht) [0, 0, 0, a])"
  have "y * wd + x < (y + 1) * wd" using assms by simp
  also have "\<dots> \<le> ht * wd" using assms by (intro mult_le_mono1) simp
  finally have k: "y * wd + x < wd * ht" by (simp add: mult.commute)
  have px: "?dat ! ((y * wd + x) * 4) = 0" "?dat ! ((y * wd + x) * 4 + 1) = 0"
    "?dat ! ((y * wd + x) * 4 + 2) = 0"
    using flat_pixels_nth [OF k, of 0 0 0 0 a] flat_pixels_nth [OF k, of 1 0 0 0 a]
      flat_pixels_nth [OF k, of 2 0 0 0 a]
    by (simp_all add: mult.commute)
  have l: "getLuminance_adv 0 0 0 = 0"
    by (simp add: getLuminance_adv_wcag wcagLuminance_black)
  show ?thesis
    unfolding addPixelWeight_def Let_def px l by simp
qed

lemma everySecond_less: "x \<in> set (everySecond n) \<Longrightarrow> x < n"
  by (simp add: everySecond_def)

lemma row_black:
  assumes "y < ht" "\<forall>x \<in> set xs. x < wd"
  shows "foldl (addPixelWeight (concat (replicate (wd * ht) [0, 0, 0, a])) wd ht y) [0, 0, 0, 0] xs
         = [0, 0, 0, 0]"
  using assms(2) by (induction xs) (simp_all add: addPixelWeight_black assms(1))

lemma rows_black:
  assumes "\<forall>y \<in> set ys. y < ht"
  shows "foldl (\<lambda>quarters y. foldl (addPixelWeight (concat (replicate (wd * ht) [0, 0, 0, a])) wd ht y)
                   quarters (everySecond wd)) [0, 0, 0, 0] ys = [0, 0, 0, 0]"
  using assms by (induction ys) (simp_all add: row_black everySecond_less)

lemma analyzeVisualWeight_black:
  "analyzeVisualWeight (pixels (flatImage wd ht 0 0 0 a)) wd ht = [0, 0, 0, 0]"
  unfolding analyzeVisualWeight_def flatImage_def
  by (simp add: rows_black everySecond_less)

text \<open>
  C2. The claim: for non-negative quadrant weights the balance and symmetry scores lie in
  \<open>[0, 100]\<close>, and the all-zero case is handled without division errors, each pairwise
  symmetry comparison guarding \<open>max(a, b) = 0\<close>. For a flat black image of any size all
  four quadrant weights are 0. \<open>calculateBalance\<close> has the guard and returns 50;
  \<open>calculateSymmetry\<close> has none: each comparison divides 0 by 0 and the result is not a
  number.
\<close>

theorem symmetry_unguarded_zero_weights:
  "analyzeVisualWeight (pixels (flatImage wd ht 0 0 0 255)) wd ht = [0, 0, 0, 0] \<and>
   calculateBalance (analyzeVisualWeight (pixels (flatImage wd ht 0 0 0 255)) wd ht) = 50 \<and>
   calculateSymmetry (analyzeVisualWeight (pixels (flatImage wd ht 0 0 0 255)) wd ht) = None"
  unfolding analyzeVisualWeight_black
  by (simp add: calculateBalance_def calculateSymmetry_def jsDivide_def)

section \<open>The overall score for a flat black image\<close>

lemma analyzeLayout_adv_black:
  "symmetry (analyzeLayout_adv (pixels (flatImage wd ht 0 0 0 a)) wd ht g) = None"
  by (simp add: analyzeLayout_adv_def analyzeVisualWeight_black calculateSymmetry_def jsDivide_def
      Let_def)

text \<open>
  C7. The claim: the overall score is the weighted combination of the five sub-scores,
  rounded to the nearest integer, and always within \<open>[0, 100]\<close>. For a flat black
  image of any size the layout analysis has balance 50, visual weight 50 and a symmetry
  that is not a number; whatever the text analysis, the palette and the grid quality,
  the layout score and the overall score that \<open>calculateScores\<close> returns are then not
  numbers either. With finite numbers in the layout analysis the overall score is the
  rounded sum with the weights 0.2, 0.25, 0.3, 0.15 and 0.1.
\<close>

theorem overall_not_a_number_for_black_image:
  "overall (calculateScores ta palette
      \<lparr>balance = Some b, symmetry = Some sy, gridQuality = Some gq, visualWeight = Some v\<rparr> e) =
     Some (real_of_int (round
       (min 100 (real (wordCount ta) * 2 + (if hasHeadings ta then 30 else 10)) * 0.2
        + calculateColorScore palette * 0.25 + (b + sy + gq) / 3 * 0.3 + v * 0.15 + gq * 0.1 + e))) \<and>
   balance (analyzeLayout_adv (pixels (flatImage wd ht 0 0 0 a)) wd ht g) = Some 50 \<and>
   symmetry (analyzeLayout_adv (pixels (flatImage wd ht 0 0 0 a)) wd ht g) = None \<and>
   visualWeight (analyzeLayout_adv (pixels (flatImage wd ht 0 0 0 a)) wd ht g) = Some 50 \<and>
   layoutScore (calculateScores ta palette
      (analyzeLayout_adv (pixels (flatImage wd ht 0 0 0 a)) wd ht g) e) = None \<and>
   overall (calculateScores ta palette
      (analyzeLayout_adv (pixels (flatImage wd ht 0 0 0 a)) wd ht g) e) = None"
proof -
  have b: "balance (analyzeLayout_adv (pixels (flatImage wd ht 0 0 0 a)) wd ht g) = Some 50"
    "visualWeight (analyzeLayout_adv (pixels (flatImage wd ht 0 0 0 a)) wd ht g) = Some 50"
    by (simp_all add: analyzeLayout_adv_def analyzeVisualWeight_black calculateBalance_def
        calculateVisualWeight_def Let_def)
  from b analyzeLayout_adv_black calculateScores_NaN [OF analyzeLayout_adv_black]
  show ?thesis by (simp add: calculateScores_finite)
qed

section \<open>The overall score of the first analyzer\<close>

text \<open>
  In \<open>analyzeDesign\<close> of the first analyzer each sub-score is an integer within
  \<open>[0, 100]\<close>, whatever the image, and so is the rounded mean.
\<close>

lemma readability_range:
  "40 \<le> calculateReadabilityScore c \<and> calculateReadabilityScore c \<le> 100"
  by (simp add: calculateReadabilityScore_def)

lemma advancedColorScore_range:
  "70 \<le> calculateAdvancedColorScore palette dc \<and> calculateAdvancedColorScore palette dc \<le> 95"
  by (simp add: calculateAdvancedColorScore_def Let_def)

lemma analyzeLayout_range: "75 \<le> analyzeLayout img \<and> analyzeLayout img \<le> 95"
  by (simp add: analyzeLayout_def Let_def)

lemma floor_scale_range:
  fixes u :: real
  assumes "0 \<le> u" "u < 1" "0 < n"
  shows "0 \<le> \<lfloor>u * real n\<rfloor> \<and> \<lfloor>u * real n\<rfloor> < int n"
proof -
  from assms have "0 \<le> u * real n" by simp
  moreover from assms have "u * real n < real n" by simp
  ultimately show ?thesis by (simp add: floor_less_iff)
qed

lemma analyzeDesign_overall_range:
  assumes "0 \<le> hierarchyDraw d" "hierarchyDraw d < 1" "0 \<le> spacingDraw d" "spacingDraw d < 1"
    and "analyzeDesign fl f d fb = Inr r"
  shows "0 \<le> overallScore (feedback r) \<and> overallScore (feedback r) \<le> 100"
proof (cases "f")
  case None
  with assms(5) show ?thesis
    by (auto simp: analyzeDesign_None getFallbackResult_def)
next
  case (Some img)
  have h: "0 \<le> \<lfloor>hierarchyDraw d * 30\<rfloor> \<and> \<lfloor>hierarchyDraw d * 30\<rfloor> < 30"
    using floor_scale_range [OF assms(1,2), of 30] by simp
  have sp: "0 \<le> \<lfloor>spacingDraw d * 25\<rfloor> \<and> \<lfloor>spacingDraw d * 25\<rfloor> < 25"
    using floor_scale_range [OF assms(3,4), of 25] by simp
  obtain dc palette contrast where e: "extractRealColorsAdvanced fl img d = (dc, palette, contrast)"
    by (cases "extractRealColorsAdvanced fl img d") auto
  let ?t = "calculateReadabilityScore contrast" and ?c = "calculateAdvancedColorScore palette dc"
  let ?l = "analyzeLayout img" and ?v = "analyzeVisualHierarchy (hierarchyDraw d)"
  let ?s = "analyzeSpacing (spacingDraw d)"
  have "0 \<le> round ((?t + ?c + ?l + ?v + ?s) / 5) \<and> round ((?t + ?c + ?l + ?v + ?s) / 5) \<le> 100"
  proof (rule average_range)
    show "0 \<le> ?t" "?t \<le> 100" using readability_range [of contrast] by simp_all
    show "0 \<le> ?c" "?c \<le> 100" using advancedColorScore_range [of palette dc] by simp_all
    show "0 \<le> ?l" "?l \<le> 100" using analyzeLayout_range [of img] by simp_all
    show "0 \<le> ?v" "?v \<le> 100" using h by (simp_all add: analyzeVisualHierarchy_def)
    show "0 \<le> ?s" "?s \<le> 100" using sp by (simp_all add: analyzeSpacing_def)
  qed
  moreover from assms(5) Some e have
    "overallScore (feedback r) = real_of_int (round ((?t + ?c + ?l + ?v + ?s) / 5))"
    by (auto simp: analyzeDesign_def analyzeDesignBody_def loadImage_def Let_def)
  ultimately show ?thesis by simp
qed

section \<open>Background and text colour are distinct\<close>

text \<open>
  The loop of \<open>findBestTextColor\<close> skips the background, and the fallback is black for a
  background lighter than 50 and white otherwise, so the text colour is never the
  background.
\<close>

lemma lightness_black: "getLightness ''#000000'' = 0"
  by (simp add: getLightness_def web_rgb Let_def)

lemma lightness_white: "getLightness ''#FFFFFF'' = 100"
  by (simp add: getLightness_def web_rgb Let_def)

lemma textColorLoop_inv:
  assumes "mc = 0 \<or> bc \<noteq> bg"
  shows "snd (textColorLoop bg cs (bc, mc)) = 0 \<or> fst (textColorLoop bg cs (bc, mc)) \<noteq> bg"
  using assms
proof (induction cs arbitrary: bc mc)
  case Nil
  then show ?case by simp
next
  case (Cons c cs)
  show ?case
  proof (cases "c = bg")
    case True
    with Cons show ?thesis by simp
  next
    case False
    show ?thesis
    proof (cases "calculateContrastRatio bg c > mc")
      case True
      with False Cons.IH [of "calculateContrastRatio bg c" c] show ?thesis
        by (simp add: Let_def)
    next
      case f: False
      with False Cons.IH [of mc bc] Cons.prems show ?thesis
        by (simp add: Let_def)
    qed
  qed
qed

lemma findBestTextColor_distinct: "findBestTextColor colors bg \<noteq> bg"
proof -
  obtain bc mc where l: "textColorLoop bg colors (''#000000'', 0) = (bc, mc)"
    by (cases "textColorLoop bg colors (''#000000'', 0)") auto
  from textColorLoop_inv [of 0 "''#000000''" bg colors] l have inv: "mc = 0 \<or> bc \<noteq> bg"
    by simp
  show ?thesis
  proof (cases "mc < 3")
    case True
    then show ?thesis
      using lightness_white lightness_black
      by (auto simp: findBestTextColor_def l)
  next
    case False
    with inv show ?thesis
      by (auto simp: findBestTextColor_def l)
  qed
qed

lemma dominant_colors_distinct:
  "background (calculateAdvancedDominantColors colors u) \<noteq>
   textColor (calculateAdvancedDominantColors colors u)"
  using findBestTextColor_distinct
  by (simp add: calculateAdvancedDominantColors_def getDefaultColors_def Let_def) metis

end
